theory Spec2Isabelle
  imports Main "HOL-Library.Word" "HOL-Library.Sublist"
begin

section \<open>JavaScript values used by the chat screens\<close>

subsection \<open>Strings\<close>

text \<open>
  A JavaScript string is a sequence of 16-bit UTF-16 code units. \<open>js\<close> writes an ASCII
  literal of the source as such a sequence.
\<close>

type_synonym jsstring = "16 word list"

definition js :: "string \<Rightarrow> jsstring" where
  "js s = map of_char s"

text \<open>
  \<open>String.prototype.replace\<close> with a string pattern: only the first occurrence of the
  pattern is replaced. The replacement is taken literally; the only replacement text of the
  source, \<open>'https:'\<close>, has no \<open>$\<close> pattern in it.
\<close>

fun String_replace :: "jsstring \<Rightarrow> jsstring \<Rightarrow> jsstring \<Rightarrow> jsstring" where
  "String_replace pat rep [] = (if pat = [] then rep else [])"
| "String_replace pat rep (c # cs) =
     (if prefix pat (c # cs) then rep @ drop (length pat) (c # cs)
      else c # String_replace pat rep cs)"

text \<open>
  \<open>String.prototype.trim\<close> removes the ECMAScript WhiteSpace and LineTerminator code
  units from both ends.
\<close>

definition is_js_space :: "16 word \<Rightarrow> bool" where
  "is_js_space c \<longleftrightarrow>
     c \<in> {0x09, 0x0A, 0x0B, 0x0C, 0x0D, 0x20, 0xA0, 0x1680,
          0x2000, 0x2001, 0x2002, 0x2003, 0x2004, 0x2005, 0x2006, 0x2007, 0x2008, 0x2009,
          0x200A, 0x2028, 0x2029, 0x202F, 0x205F, 0x3000, 0xFEFF}"

definition String_trim :: "jsstring \<Rightarrow> jsstring" where
  "String_trim s = rev (dropWhile is_js_space (rev (dropWhile is_js_space s)))"

text \<open>\<open>String.prototype.includes\<close>: the pattern occurs somewhere in the string.\<close>

fun String_includes :: "jsstring \<Rightarrow> jsstring \<Rightarrow> bool" where
  "String_includes [] pat = (pat = [])"
| "String_includes (c # cs) pat = (prefix pat (c # cs) \<or> String_includes cs pat)"

text \<open>The decimal digits of a natural number, as a template literal prints an integer.\<close>

fun decimal :: "nat \<Rightarrow> jsstring" where
  "decimal n = (if n < 10 then [0x30 + of_nat n] else decimal (n div 10) @ [0x30 + of_nat (n mod 10)])"

subsection \<open>Awaited platform calls\<close>

text \<open>
  A value a \<open>catch\<close> clause receives: an \<open>Error\<close> object with its message, or anything
  else. An awaited call either rejects with such a value or resolves.
\<close>

datatype thrown = Error jsstring | NonError

datatype 'a promise = Rejected thrown | Resolved 'a

text \<open>What the code reads of a \<open>fetch\<close> response: \<open>ok\<close>, \<open>status\<close> and the body.\<close>

datatype 'b response = Response (ok: bool) (status: nat) (payload: 'b)

subsection \<open>TextDecoder\<close>

text \<open>
  \<open>new TextDecoder()\<close> decodes UTF-8 as the Encoding Standard prescribes: a malformed or
  truncated sequence becomes U+FFFD, and the byte that broke a sequence is read again as the
  start of the next one. The decoder state is the standard's: code point, bytes seen, bytes
  needed and the two boundaries of the next continuation byte.
\<close>

record utf8_decoder =
  code_point :: nat
  bytes_seen :: nat
  bytes_needed :: nat
  lower_boundary :: nat
  upper_boundary :: nat

definition utf8_initial :: utf8_decoder where
  "utf8_initial = \<lparr>code_point = 0, bytes_seen = 0, bytes_needed = 0,
     lower_boundary = 0x80, upper_boundary = 0xBF\<rparr>"

definition utf8_lead :: "nat \<Rightarrow> utf8_decoder \<times> nat list" where
  "utf8_lead b =
     (if b \<le> 0x7F then (utf8_initial, [b])
      else if 0xC2 \<le> b \<and> b \<le> 0xDF
        then (utf8_initial\<lparr>bytes_needed := 1, code_point := b mod 0x20\<rparr>, [])
      else if 0xE0 \<le> b \<and> b \<le> 0xEF
        then (utf8_initial\<lparr>lower_boundary := (if b = 0xE0 then 0xA0 else 0x80),
                upper_boundary := (if b = 0xED then 0x9F else 0xBF),
                bytes_needed := 2, code_point := b mod 0x10\<rparr>, [])
      else if 0xF0 \<le> b \<and> b \<le> 0xF4
        then (utf8_initial\<lparr>lower_boundary := (if b = 0xF0 then 0x90 else 0x80),
                upper_boundary := (if b = 0xF4 then 0x8F else 0xBF),
                bytes_needed := 3, code_point := b mod 0x08\<rparr>, [])
      else (utf8_initial, [0xFFFD]))"

fun utf8_decode :: "utf8_decoder \<Rightarrow> 8 word list \<Rightarrow> nat list" where
  "utf8_decode d [] = (if bytes_needed d \<noteq> 0 then [0xFFFD] else [])"
| "utf8_decode d (byte # rest) =
     (let b = unat byte in
      if bytes_needed d = 0
        then (case utf8_lead b of (d', out) \<Rightarrow> out @ utf8_decode d' rest)
      else if b < lower_boundary d \<or> upper_boundary d < b
        then (case utf8_lead b of (d', out) \<Rightarrow> 0xFFFD # out @ utf8_decode d' rest)
      else
        let d1 = d\<lparr>lower_boundary := 0x80, upper_boundary := 0xBF,
                   code_point := code_point d * 0x40 + b mod 0x40,
                   bytes_seen := bytes_seen d + 1\<rparr>
        in if bytes_seen d1 \<noteq> bytes_needed d1 then utf8_decode d1 rest
           else code_point d1 # utf8_decode utf8_initial rest)"

text \<open>A code point as UTF-16 code units: itself, or a surrogate pair.\<close>

fun utf16_encode :: "nat \<Rightarrow> jsstring" where
  "utf16_encode cp =
     (if cp < 0x10000 then [of_nat cp]
      else [of_nat (0xD800 + (cp - 0x10000) div 0x400), of_nat (0xDC00 + (cp - 0x10000) mod 0x400)])"

text \<open>
  \<open>decoder.decode(value)\<close> is called without \<open>{stream: true}\<close>: every call starts from
  the initial decoder state, flushes at the end of its bytes, and drops one leading byte
  order mark.
\<close>

definition strip_bom :: "nat list \<Rightarrow> nat list" where
  "strip_bom cps = (case cps of [] \<Rightarrow> [] | cp # rest \<Rightarrow> if cp = 0xFEFF then rest else cp # rest)"

definition TextDecoder_decode :: "8 word list \<Rightarrow> jsstring" where
  "TextDecoder_decode bytes = concat (map utf16_encode (strip_bom (utf8_decode utf8_initial bytes)))"

subsection \<open>JSON.parse\<close>

text \<open>
  JSON values. A number keeps the text of its token; an object keeps its members in the
  order of the text, with repeated keys.
\<close>

datatype json =
    JNull
  | JBool bool
  | JNum jsstring
  | JStr jsstring
  | JArr "json list"
  | JObj "(jsstring \<times> json) list"

datatype token =
    TLBrace | TRBrace | TLBracket | TRBracket | TColon | TComma
  | TString jsstring | TNumber jsstring | TTrue | TFalse | TNull

definition is_json_space :: "16 word \<Rightarrow> bool" where
  "is_json_space c \<longleftrightarrow> c = 0x09 \<or> c = 0x0A \<or> c = 0x0D \<or> c = 0x20"

definition is_digit :: "16 word \<Rightarrow> bool" where
  "is_digit c \<longleftrightarrow> 0x30 \<le> c \<and> c \<le> 0x39"

definition hex_value :: "16 word \<Rightarrow> nat option" where
  "hex_value c =
     (if 0x30 \<le> c \<and> c \<le> 0x39 then Some (unat c - 0x30)
      else if 0x41 \<le> c \<and> c \<le> 0x46 then Some (unat c - 0x41 + 10)
      else if 0x61 \<le> c \<and> c \<le> 0x66 then Some (unat c - 0x61 + 10)
      else None)"

definition simple_escape :: "16 word \<Rightarrow> 16 word option" where
  "simple_escape c =
     (if c = 0x22 then Some 0x22
      else if c = 0x5C then Some 0x5C
      else if c = 0x2F then Some 0x2F
      else if c = 0x62 then Some 0x08
      else if c = 0x66 then Some 0x0C
      else if c = 0x6E then Some 0x0A
      else if c = 0x72 then Some 0x0D
      else if c = 0x74 then Some 0x09
      else None)"

definition unicode_escape :: "16 word \<Rightarrow> 16 word \<Rightarrow> 16 word \<Rightarrow> 16 word \<Rightarrow> 16 word option" where
  "unicode_escape a b c d =
     (case (hex_value a, hex_value b, hex_value c, hex_value d) of
        (Some h1, Some h2, Some h3, Some h4) \<Rightarrow> Some (of_nat (((h1 * 16 + h2) * 16 + h3) * 16 + h4))
      | _ \<Rightarrow> None)"

text \<open>The characters of a string token after its opening quote, and what follows the closing quote.\<close>

fun scan_string :: "jsstring \<Rightarrow> (jsstring \<times> jsstring) option" where
  "scan_string [] = None"
| "scan_string (c # cs) =
     (if c = 0x22 then Some ([], cs)
      else if c = 0x5C then
        (case cs of
           [] \<Rightarrow> None
         | e # r \<Rightarrow>
            if e = 0x75 then
              (case r of
                 h1 # h2 # h3 # h4 # r' \<Rightarrow>
                   (case unicode_escape h1 h2 h3 h4 of
                      None \<Rightarrow> None
                    | Some u \<Rightarrow> map_option (\<lambda>(s, rest). (u # s, rest)) (scan_string r'))
               | _ \<Rightarrow> None)
            else
              (case simple_escape e of
                 None \<Rightarrow> None
               | Some x \<Rightarrow> map_option (\<lambda>(s, rest). (x # s, rest)) (scan_string r)))
      else if c < 0x20 then None
      else map_option (\<lambda>(s, rest). (c # s, rest)) (scan_string cs))"

text \<open>One or more digits, and what follows them.\<close>

definition scan_digits :: "jsstring \<Rightarrow> (jsstring \<times> jsstring) option" where
  "scan_digits s = (if takeWhile is_digit s = [] then None else Some (takeWhile is_digit s, dropWhile is_digit s))"

text \<open>
  A number token, \<open>-? (0 | [1-9][0-9]*) (. [0-9]+)? ([eE] [+-]? [0-9]+)?\<close>: its text and what
  follows it.
\<close>

definition scan_int :: "jsstring \<Rightarrow> (jsstring \<times> jsstring) option" where
  "scan_int s =
     (case s of
        [] \<Rightarrow> None
      | c # cs \<Rightarrow> if c = 0x30 then Some ([c], cs) else scan_digits s)"

definition scan_frac :: "jsstring \<Rightarrow> (jsstring \<times> jsstring) option" where
  "scan_frac s =
     (case s of
        [] \<Rightarrow> Some ([], s)
      | c # cs \<Rightarrow>
          if c = 0x2E then map_option (\<lambda>(ds, rest). (c # ds, rest)) (scan_digits cs)
          else Some ([], s))"

definition scan_exp :: "jsstring \<Rightarrow> (jsstring \<times> jsstring) option" where
  "scan_exp s =
     (case s of
        [] \<Rightarrow> Some ([], s)
      | c # cs \<Rightarrow>
          if c = 0x65 \<or> c = 0x45 then
            (case cs of
               [] \<Rightarrow> None
             | g # r \<Rightarrow>
                 if g = 0x2B \<or> g = 0x2D
                 then map_option (\<lambda>(ds, rest). (c # g # ds, rest)) (scan_digits r)
                 else map_option (\<lambda>(ds, rest). (c # ds, rest)) (scan_digits cs))
          else Some ([], s))"

definition scan_number :: "jsstring \<Rightarrow> (jsstring \<times> jsstring) option" where
  "scan_number s =
     (let (sign, s1) = (case s of [] \<Rightarrow> ([], s) | c # cs \<Rightarrow> if c = 0x2D then ([c], cs) else ([], s))
      in case scan_int s1 of
           None \<Rightarrow> None
         | Some (i, s2) \<Rightarrow>
            (case scan_frac s2 of
               None \<Rightarrow> None
             | Some (f, s3) \<Rightarrow>
                (case scan_exp s3 of
                   None \<Rightarrow> None
                 | Some (e, s4) \<Rightarrow> Some (sign @ i @ f @ e, s4))))"

text \<open>Every scanner consumes input; the tokenizer terminates for that reason.\<close>

lemma scan_string_length: "scan_string s = Some (v, rest) \<Longrightarrow> length rest < length s"
proof (induction s arbitrary: v rest rule: scan_string.induct)
  case 1
  then show ?case by simp
next
  case (2 c cs)
  show ?case using "2.prems" "2.IH"
    by (fastforce split: if_splits list.splits option.splits)
qed

lemma scan_digits_length:
  assumes "scan_digits s = Some (v, rest)"
  shows "length rest < length s"
proof (cases s)
  case Nil
  with assms show ?thesis by (simp add: scan_digits_def)
next
  case (Cons c cs)
  with assms have "rest = dropWhile is_digit cs"
    by (auto simp: scan_digits_def split: if_splits)
  then show ?thesis using Cons length_dropWhile_le[of is_digit cs] by simp
qed

lemma scan_int_length: "scan_int s = Some (v, rest) \<Longrightarrow> length rest < length s"
  by (auto simp: scan_int_def split: list.splits if_splits dest: scan_digits_length)

lemma scan_frac_length: "scan_frac s = Some (v, rest) \<Longrightarrow> length rest \<le> length s"
  by (auto simp: scan_frac_def split: list.splits if_splits dest!: scan_digits_length)

lemma scan_exp_length: "scan_exp s = Some (v, rest) \<Longrightarrow> length rest \<le> length s"
  by (auto simp: scan_exp_def split: list.splits if_splits dest!: scan_digits_length)

lemma scan_number_length: "scan_number s = Some (v, rest) \<Longrightarrow> length rest < length s"
  by (auto simp: scan_number_def split: list.splits if_splits option.splits prod.splits
      dest!: scan_int_length scan_frac_length scan_exp_length)

function tokenize :: "jsstring \<Rightarrow> token list option" where
  "tokenize [] = Some []"
| "tokenize (c # cs) =
     (if is_json_space c then tokenize cs
      else if c = 0x7B then map_option (Cons TLBrace) (tokenize cs)
      else if c = 0x7D then map_option (Cons TRBrace) (tokenize cs)
      else if c = 0x5B then map_option (Cons TLBracket) (tokenize cs)
      else if c = 0x5D then map_option (Cons TRBracket) (tokenize cs)
      else if c = 0x3A then map_option (Cons TColon) (tokenize cs)
      else if c = 0x2C then map_option (Cons TComma) (tokenize cs)
      else if c = 0x22 then
        (case scan_string cs of
           None \<Rightarrow> None
         | Some (s, rest) \<Rightarrow> map_option (Cons (TString s)) (tokenize rest))
      else if c = 0x2D \<or> is_digit c then
        (case scan_number (c # cs) of
           None \<Rightarrow> None
         | Some (n, rest) \<Rightarrow> map_option (Cons (TNumber n)) (tokenize rest))
      else if prefix (js ''true'') (c # cs) then map_option (Cons TTrue) (tokenize (drop 3 cs))
      else if prefix (js ''false'') (c # cs) then map_option (Cons TFalse) (tokenize (drop 4 cs))
      else if prefix (js ''null'') (c # cs) then map_option (Cons TNull) (tokenize (drop 3 cs))
      else None)"
  by pat_completeness auto
termination
proof (relation "measure length")
qed (auto dest: scan_string_length scan_number_length)

text \<open>
  The values of a token list. A frame is an array or an object under construction: the
  elements read so far, last first, and for an object the key whose value is being read.
\<close>

datatype frame = InArray "json list" | InObject "(jsstring \<times> json) list" jsstring

fun parse_value :: "frame list \<Rightarrow> token list \<Rightarrow> json option"
  and parse_after :: "json \<Rightarrow> frame list \<Rightarrow> token list \<Rightarrow> json option" where
  "parse_value stack [] = None"
| "parse_value stack (t # ts) =
     (case t of
        TString s \<Rightarrow> parse_after (JStr s) stack ts
      | TNumber n \<Rightarrow> parse_after (JNum n) stack ts
      | TTrue \<Rightarrow> parse_after (JBool True) stack ts
      | TFalse \<Rightarrow> parse_after (JBool False) stack ts
      | TNull \<Rightarrow> parse_after JNull stack ts
      | TLBracket \<Rightarrow>
          (case ts of
             TRBracket # r \<Rightarrow> parse_after (JArr []) stack r
           | _ \<Rightarrow> parse_value (InArray [] # stack) ts)
      | TLBrace \<Rightarrow>
          (case ts of
             TRBrace # r \<Rightarrow> parse_after (JObj []) stack r
           | TString k # TColon # r \<Rightarrow> parse_value (InObject [] k # stack) r
           | _ \<Rightarrow> None)
      | _ \<Rightarrow> None)"
| "parse_after v [] ts = (if ts = [] then Some v else None)"
| "parse_after v (InArray acc # stack) ts =
     (case ts of
        TComma # r \<Rightarrow> parse_value (InArray (v # acc) # stack) r
      | TRBracket # r \<Rightarrow> parse_after (JArr (rev (v # acc))) stack r
      | _ \<Rightarrow> None)"
| "parse_after v (InObject acc k # stack) ts =
     (case ts of
        TComma # TString k' # TColon # r \<Rightarrow> parse_value (InObject ((k, v) # acc) k' # stack) r
      | TRBrace # r \<Rightarrow> parse_after (JObj (rev ((k, v) # acc))) stack r
      | _ \<Rightarrow> None)"

definition JSON_parse :: "jsstring \<Rightarrow> json option" where
  "JSON_parse text = (case tokenize text of None \<Rightarrow> None | Some ts \<Rightarrow> parse_value [] ts)"

subsection \<open>Reading parsed values\<close>

text \<open>
  What the language leaves to the platform: the arithmetic of doubles (whether the number a
  token denotes is zero or greater than zero, how it prints, whether the number a string
  converts to is greater than zero) and the wording of the errors the runtime throws.
\<close>

record platform =
  number_is_zero :: "jsstring \<Rightarrow> bool"
  number_is_positive :: "jsstring \<Rightarrow> bool"
  string_is_positive :: "jsstring \<Rightarrow> bool"
  number_to_string :: "jsstring \<Rightarrow> jsstring"
  syntax_error_message :: "jsstring \<Rightarrow> jsstring"
  null_property_message :: "jsstring \<Rightarrow> jsstring"

text \<open>
  \<open>value.key\<close> for a value that is not null, \<open>None\<close> for \<open>undefined\<close>. Of a repeated key
  the last member counts. The keys the screens read this way (\<open>message\<close>, \<open>content\<close>,
  \<open>done\<close>, \<open>models\<close>) are no properties of strings, numbers, booleans, arrays or
  \<open>Object.prototype\<close>.
\<close>

fun property :: "json \<Rightarrow> jsstring \<Rightarrow> json option" where
  "property (JObj members) key = map_of (rev members) key"
| "property _ key = None"

fun truthy :: "platform \<Rightarrow> json option \<Rightarrow> bool" where
  "truthy P None = False"
| "truthy P (Some JNull) = False"
| "truthy P (Some (JBool b)) = b"
| "truthy P (Some (JNum n)) = (\<not> number_is_zero P n)"
| "truthy P (Some (JStr s)) = (s \<noteq> [])"
| "truthy P (Some (JArr xs)) = True"
| "truthy P (Some (JObj members)) = True"

fun join_comma :: "jsstring option list \<Rightarrow> jsstring option" where
  "join_comma [] = Some []"
| "join_comma [x] = x"
| "join_comma (x # y # rest) =
     (case x of
        None \<Rightarrow> None
      | Some s \<Rightarrow> map_option (\<lambda>t. s @ [0x2C] @ t) (join_comma (y # rest)))"

text \<open>
  The string a value becomes in \<open>text += value\<close>; \<open>None\<close> when the conversion throws a
  TypeError, which it does for an object whose own \<open>toString\<close> member hides the inherited
  method. An array prints its elements separated by commas, null as the empty string.
\<close>

fun ToString :: "platform \<Rightarrow> json \<Rightarrow> jsstring option" where
  "ToString P JNull = Some (js ''null'')"
| "ToString P (JBool b) = Some (if b then js ''true'' else js ''false'')"
| "ToString P (JNum n) = Some (number_to_string P n)"
| "ToString P (JStr s) = Some s"
| "ToString P (JArr xs) = join_comma (map (\<lambda>x. if x = JNull then Some [] else ToString P x) xs)"
| "ToString P (JObj members) =
     (if js ''toString'' \<in> fst ` set members then None else Some (js ''[object Object]''))"

text \<open>
  \<open>value > 0\<close>, with \<open>None\<close> for a value that is \<open>undefined\<close>; the result is \<open>None\<close> when
  the conversion to a primitive throws. Null counts as 0, \<open>true\<close> as 1, \<open>undefined\<close> as
  NaN; an array is compared through the string it prints as, an object through
  \<open>[object Object]\<close>, which is no number.
\<close>

fun greater_than_zero :: "platform \<Rightarrow> json option \<Rightarrow> bool option" where
  "greater_than_zero P None = Some False"
| "greater_than_zero P (Some JNull) = Some False"
| "greater_than_zero P (Some (JBool b)) = Some b"
| "greater_than_zero P (Some (JNum n)) = Some (number_is_positive P n)"
| "greater_than_zero P (Some (JStr s)) = Some (string_is_positive P s)"
| "greater_than_zero P (Some (JArr xs)) = map_option (string_is_positive P) (ToString P (JArr xs))"
| "greater_than_zero P (Some (JObj members)) = map_option (\<lambda>s. False) (ToString P (JObj members))"

text \<open>
  \<open>value.length > 0\<close>: the number of elements of an array, of code units of a string, the
  member \<open>length\<close> of an object; numbers and booleans have no \<open>length\<close>. \<open>None\<close> when the
  expression throws.
\<close>

fun length_greater_than_zero :: "platform \<Rightarrow> json \<Rightarrow> bool option" where
  "length_greater_than_zero P JNull = None"
| "length_greater_than_zero P (JBool b) = Some False"
| "length_greater_than_zero P (JNum n) = Some False"
| "length_greater_than_zero P (JStr s) = Some (s \<noteq> [])"
| "length_greater_than_zero P (JArr xs) = Some (xs \<noteq> [])"
| "length_greater_than_zero P (JObj members) =
     greater_than_zero P (property (JObj members) (js ''length''))"

section \<open>Data model\<close>

datatype role = user | assistant

record Message =
  role :: role
  content :: jsstring

text \<open>
  The React state of the chat screen (\<open>useState\<close> hooks of \<open>Chat\<close>). \<open>localModels\<close> is
  declared as \<open>LocalModel[]\<close> and holds whatever value \<open>data.models\<close> was.
\<close>

record chat_state =
  messages :: "Message list"
  input :: jsstring
  isLoading :: bool
  serverUrl :: jsstring
  selectedModel :: jsstring
  localModels :: json
  error :: "jsstring option"

definition initial_state :: chat_state where
  "initial_state = \<lparr>messages = [], input = [], isLoading = False, serverUrl = [],
     selectedModel = [], localModels = JArr [], error = None\<rparr>"

text \<open>The JSON body of the chat request (keys \<open>model\<close>, \<open>messages\<close>, \<open>stream\<close>);
  \<open>body_stream\<close> is \<open>None\<close> when the key is absent.\<close>

record chat_request =
  body_model :: jsstring
  body_messages :: "Message list"
  body_stream :: "bool option"

text \<open>What the screen does to its collaborators, in the order it does it.\<close>

datatype effect =
    Navigate jsstring
  | Toast jsstring jsstring bool
  | HttpGet jsstring
  | HttpPost jsstring chat_request
  | PreferencesSet jsstring jsstring

subsection \<open>Configuration store\<close>

type_synonym preferences = "jsstring \<rightharpoonup> jsstring"

definition Preferences_get :: "preferences \<Rightarrow> jsstring \<Rightarrow> jsstring option promise" where
  "Preferences_get store key = Resolved (store key)"

fun apply_effect :: "effect \<Rightarrow> preferences \<Rightarrow> preferences" where
  "apply_effect (PreferencesSet key v) store = store(key \<mapsto> v)"
| "apply_effect _ store = store"

definition apply_effects :: "effect list \<Rightarrow> preferences \<Rightarrow> preferences" where
  "apply_effects effs store = fold apply_effect effs store"

definition url_key :: jsstring where
  "url_key = js ''ollama_server_url''"

definition model_key :: jsstring where
  "model_key = js ''ollama_model''"

section \<open>The streaming chat screen\<close>

subsection \<open>fetchLocalModels\<close>

definition fetch_models_error :: jsstring where
  "fetch_models_error = js (''Unable to connect to Ollama server or fetch models. Please ensure:''
     @ [CHR 0x0A] @ ''1. Ollama server is running (ollama serve --cors)''
     @ [CHR 0x0A] @ ''2. Server URL is correct and accessible''
     @ [CHR 0x0A] @ ''3. Check server logs for errors if issues persist.''
     @ [CHR 0x0A] @ ''4. The server URL in settings matches your Ollama server'')"

definition fetch_models_toast :: effect where
  "fetch_models_toast = Toast (js ''Error'')
     (js ''Unable to fetch list of local models from server. Check server URL and Ollama server status.'')
     True"

text \<open>The \<open>catch\<close> and \<open>finally\<close> clauses of \<open>fetchLocalModels\<close>; the function returns \<open>[]\<close>.\<close>

definition fetchLocalModels_failed :: "chat_state \<Rightarrow> chat_state \<times> effect list \<times> json" where
  "fetchLocalModels_failed st =
     (st\<lparr>error := Some fetch_models_error, isLoading := False\<rparr>, [fetch_models_toast], JArr [])"

text \<open>
  The payload of the response is what \<open>response.json()\<close> gives: the call rejects, or it
  resolves to the parsed body \<open>data\<close>, any JSON value. \<open>data.models\<close> is stored and returned
  as it is when \<open>data && data.models\<close> is truthy.
\<close>

definition fetchLocalModels ::
  "platform \<Rightarrow> jsstring \<Rightarrow> json promise response promise \<Rightarrow> chat_state \<Rightarrow>
   chat_state \<times> effect list \<times> json" where
  "fetchLocalModels P url outcome st =
     (let st1 = st\<lparr>isLoading := True, error := None\<rparr>;
          (st2, effs, models) =
            (case outcome of
               Rejected e \<Rightarrow> fetchLocalModels_failed st1
             | Resolved r \<Rightarrow>
                 if \<not> ok r then fetchLocalModels_failed st1
                 else (case payload r of
                         Rejected e \<Rightarrow> fetchLocalModels_failed st1
                       | Resolved data \<Rightarrow>
                          (case (if truthy P (Some data) then property data (js ''models'') else None) of
                             None \<Rightarrow> (st1\<lparr>isLoading := False\<rparr>, [], JArr [])
                           | Some models \<Rightarrow>
                               if truthy P (Some models)
                               then (st1\<lparr>localModels := models, isLoading := False\<rparr>, [], models)
                               else (st1\<lparr>isLoading := False\<rparr>, [], JArr []))))
      in (st2, HttpGet (url @ js ''/api/tags'') # effs, models))"

subsection \<open>loadServerConfig\<close>

text \<open>The branch \<open>!url || !model\<close>: \<open>navigate('/settings')\<close>, a toast, \<open>return\<close>.\<close>

definition config_required :: "effect list" where
  "config_required =
     [Navigate (js ''/settings''),
      Toast (js ''Configuration Required'') (js ''Please set up your Ollama server and model first.'') True]"

definition load_config_error :: jsstring where
  "load_config_error = js ''Failed to load configuration. Please check settings and server connection.''"

text \<open>
  \<open>get\<close> is \<open>Preferences.get\<close> at the time of the call, \<open>protocol\<close> is
  \<open>window.location.protocol\<close>, \<open>tags\<close> is what the request to \<open>/api/tags\<close> will meet.
  The \<open>error\<close> that \<open>!error\<close> tests is the one of the render that created the closure,
  that is, of the state the function was started in. When \<open>fetchedModels.length > 0\<close> throws,
  the \<open>catch\<close> clause sets its error.
\<close>

definition loadServerConfig ::
  "platform \<Rightarrow> (jsstring \<Rightarrow> jsstring option promise) \<Rightarrow> jsstring \<Rightarrow>
   json promise response promise \<Rightarrow> chat_state \<Rightarrow> chat_state \<times> effect list" where
  "loadServerConfig P get protocol tags st =
     (case get url_key of
        Rejected e \<Rightarrow> (st\<lparr>error := Some load_config_error\<rparr>, [])
      | Resolved url \<Rightarrow>
         (case get model_key of
            Rejected e \<Rightarrow> (st\<lparr>error := Some load_config_error\<rparr>, [])
          | Resolved model \<Rightarrow>
             (case (url, model) of
                (Some u, Some m) \<Rightarrow>
                  if u = [] \<or> m = [] then (st, config_required)
                  else
                    let finalUrl = (if protocol = js ''https:''
                                    then String_replace (js ''http:'') (js ''https:'') u
                                    else u);
                        st1 = st\<lparr>serverUrl := finalUrl\<rparr>;
                        (st2, effs, fetchedModels) = fetchLocalModels P finalUrl tags st1
                    in (case length_greater_than_zero P fetchedModels of
                          None \<Rightarrow> (st2\<lparr>error := Some load_config_error\<rparr>, effs)
                        | Some True \<Rightarrow> (st2\<lparr>selectedModel := m, error := None\<rparr>, effs)
                        | Some False \<Rightarrow>
                            if error st = None \<or> error st = Some []
                            then (st2\<lparr>error := Some (js ''Could not retrieve model list from server.'')\<rparr>, effs)
                            else (st2, effs))
              | _ \<Rightarrow> (st, config_required))))"

subsection \<open>handleModelSelect\<close>

definition handleModelSelect :: "jsstring \<Rightarrow> chat_state \<Rightarrow> chat_state \<times> effect list" where
  "handleModelSelect modelName st =
     (st\<lparr>selectedModel := modelName\<rparr>,
      [PreferencesSet model_key modelName,
       Toast (js ''Model Changed'') (js ''Model switched to '' @ modelName) False])"

subsection \<open>sendMessage: the part before the request is answered\<close>

definition sendMessage_guard :: "chat_state \<Rightarrow> bool" where
  "sendMessage_guard st \<longleftrightarrow>
     String_trim (input st) \<noteq> [] \<and> serverUrl st \<noteq> [] \<and> selectedModel st \<noteq> []"

definition userMessage :: "chat_state \<Rightarrow> Message" where
  "userMessage st = \<lparr>role = user, content = String_trim (input st)\<rparr>"

definition sendMessage_start :: "chat_state \<Rightarrow> chat_state" where
  "sendMessage_start st =
     st\<lparr>messages := messages st @ [userMessage st], input := [], isLoading := True, error := None\<rparr>"

definition sendMessage_request :: "chat_state \<Rightarrow> effect" where
  "sendMessage_request st =
     HttpPost (serverUrl st @ js ''/api/chat'')
       \<lparr>body_model = selectedModel st, body_messages = messages st @ [userMessage st],
        body_stream = Some True\<rparr>"

subsection \<open>sendMessage: folding the streamed lines\<close>

text \<open>
  The body of \<open>try\<close> for one line. \<open>Threw\<close>: \<open>JSON.parse\<close> or a step after it threw, the
  \<open>catch\<close> logs and continues. \<open>Parsed fragment done\<close>: the text that
  \<open>parsedData.message.content\<close> adds to \<open>assistantMessageContent\<close>, if that value is truthy,
  and whether \<open>parsedData.done\<close> is truthy.
\<close>

datatype line_result = Threw | Parsed "jsstring option" bool

definition message_content :: "platform \<Rightarrow> json \<Rightarrow> json option" where
  "message_content P parsedData =
     (case property parsedData (js ''message'') of
        None \<Rightarrow> None
      | Some message \<Rightarrow>
          if truthy P (Some message) \<and> truthy P (property message (js ''content''))
          then property message (js ''content'') else None)"

definition handle_line :: "platform \<Rightarrow> jsstring \<Rightarrow> line_result" where
  "handle_line P line =
     (case JSON_parse line of
        None \<Rightarrow> Threw
      | Some parsedData \<Rightarrow>
          if parsedData = JNull then Threw
          else (case message_content P parsedData of
                  None \<Rightarrow> Parsed None (truthy P (property parsedData (js ''done'')))
                | Some c \<Rightarrow>
                   (case ToString P c of
                      None \<Rightarrow> Threw
                    | Some text \<Rightarrow> Parsed (Some text) (truthy P (property parsedData (js ''done''))))))"

text \<open>
  The updater given to \<open>setMessages\<close>, applied to the transcript with the value
  \<open>assistantMessageContent\<close> has at that moment. React may run an updater later, when
  the variable holds more text; that updater then stores the longer text, the updaters
  queued after it find it stored, and the transcript after the last of them is the same.
\<close>

definition reconcile :: "jsstring \<Rightarrow> Message list \<Rightarrow> Message list" where
  "reconcile assistantMessageContent prevMessages =
     (if prevMessages \<noteq> [] \<and> role (last prevMessages) = assistant
         \<and> \<not> prefix assistantMessageContent (content (last prevMessages))
      then butlast prevMessages @ [(last prevMessages)\<lparr>content := assistantMessageContent\<rparr>]
      else if prevMessages = [] \<or> role (last prevMessages) \<noteq> assistant
      then prevMessages @ [\<lparr>role = assistant, content = assistantMessageContent\<rparr>]
      else prevMessages)"

text \<open>
  \<open>for (const line of lines)\<close>, on the pair of \<open>assistantMessageContent\<close> and the transcript.
  The flag says that a line with a truthy \<open>done\<close> made the function return.
\<close>

fun process_lines ::
  "platform \<Rightarrow> jsstring list \<Rightarrow> jsstring \<times> Message list \<Rightarrow> (jsstring \<times> Message list) \<times> bool" where
  "process_lines P [] (text, msgs) = ((text, msgs), False)"
| "process_lines P (line # lines) (text, msgs) =
     (case handle_line P line of
        Threw \<Rightarrow> process_lines P lines (text, msgs)
      | Parsed fragment done \<Rightarrow>
          let (text', msgs') =
                (case fragment of
                   None \<Rightarrow> (text, msgs)
                 | Some f \<Rightarrow> (text @ f, reconcile (text @ f) msgs))
          in if done then ((text', msgs'), True)
             else process_lines P lines (text', msgs'))"

text \<open>\<open>String.prototype.split\<close> at a one-unit separator; the result is never empty.\<close>

fun String_split :: "16 word \<Rightarrow> jsstring \<Rightarrow> jsstring list" where
  "String_split sep [] = [[]]"
| "String_split sep (c # cs) =
     (if c = sep then [] # String_split sep cs
      else (case String_split sep cs of
              [] \<Rightarrow> [[c]]
            | piece # pieces \<Rightarrow> (c # piece) # pieces))"

text \<open>\<open>decoder.decode(value).split('\n').filter(line => line.trim() !== '')\<close>\<close>

definition chunk_lines :: "8 word list \<Rightarrow> jsstring list" where
  "chunk_lines bytes =
     filter (\<lambda>line. String_trim line \<noteq> []) (String_split 0x0A (TextDecoder_decode bytes))"

text \<open>
  What \<open>reader.read()\<close> gives, call after call: a chunk of bytes, or a rejection. The end of
  the list is the read that reports \<open>done\<close>.
\<close>

datatype read_result = Chunk "8 word list" | ReadError thrown

datatype loop_exit = StreamFinished | ResponseComplete | ReadFailed thrown

fun read_loop ::
  "platform \<Rightarrow> read_result list \<Rightarrow> jsstring \<times> Message list \<Rightarrow> Message list \<times> loop_exit" where
  "read_loop P [] (text, msgs) = (msgs, StreamFinished)"
| "read_loop P (ReadError e # rest) (text, msgs) = (msgs, ReadFailed e)"
| "read_loop P (Chunk bytes # rest) (text, msgs) =
     (case process_lines P (chunk_lines bytes) (text, msgs) of
        (folded, True) \<Rightarrow> (snd folded, ResponseComplete)
      | (folded, False) \<Rightarrow> read_loop P rest folded)"

subsection \<open>sendMessage\<close>

definition send_failed_toast :: effect where
  "send_failed_toast = Toast (js ''Error'')
     (js ''Failed to get response from Ollama server. Check console for details.'') True"

definition error_message :: "thrown \<Rightarrow> jsstring" where
  "error_message e = (case e of Error m \<Rightarrow> m | NonError \<Rightarrow> js ''Unknown error occurred'')"

definition http_error :: "nat \<Rightarrow> thrown" where
  "http_error code = Error (js ''HTTP error! status: '' @ decimal code)"

text \<open>The \<open>catch\<close> and \<open>finally\<close> clauses of \<open>sendMessage\<close>.\<close>

definition sendMessage_catch :: "thrown \<Rightarrow> chat_state \<Rightarrow> chat_state \<times> effect list" where
  "sendMessage_catch e st =
     (st\<lparr>isLoading := False, error := Some (error_message e)\<rparr>, [send_failed_toast])"

text \<open>
  What happens once the request is answered, from the state \<open>sendMessage_start\<close> left.
  The body of a response is \<open>None\<close> when \<open>response.body\<close> is null.
\<close>

definition sendMessage_response ::
  "platform \<Rightarrow> read_result list option response promise \<Rightarrow> chat_state \<Rightarrow> chat_state \<times> effect list" where
  "sendMessage_response P outcome st =
     (case outcome of
        Rejected e \<Rightarrow> sendMessage_catch e st
      | Resolved r \<Rightarrow>
         (case payload r of
            None \<Rightarrow> sendMessage_catch (http_error (status r)) st
          | Some reads \<Rightarrow>
              if \<not> ok r then sendMessage_catch (http_error (status r)) st
              else (case read_loop P reads ([], messages st) of
                      (msgs, ReadFailed e) \<Rightarrow> sendMessage_catch e (st\<lparr>messages := msgs\<rparr>)
                    | (msgs, _) \<Rightarrow> (st\<lparr>messages := msgs, isLoading := False\<rparr>, []))))"

definition sendMessage ::
  "platform \<Rightarrow> read_result list option response promise \<Rightarrow> chat_state \<Rightarrow> chat_state \<times> effect list" where
  "sendMessage P outcome st =
     (if \<not> sendMessage_guard st then (st, [])
      else let (st', effs) = sendMessage_response P outcome (sendMessage_start st)
           in (st', sendMessage_request st # effs))"

subsection \<open>The input field and the send button\<close>

text \<open>
  The button is rendered with \<open>disabled={isLoading || !input.trim()}\<close> and calls
  \<open>sendMessage\<close> when clicked; the input field calls \<open>sendMessage\<close> on the Enter key and
  stores what is typed.
\<close>

definition button_disabled :: "chat_state \<Rightarrow> bool" where
  "button_disabled st \<longleftrightarrow> isLoading st \<or> String_trim (input st) = []"

definition onClick ::
  "platform \<Rightarrow> read_result list option response promise \<Rightarrow> chat_state \<Rightarrow> chat_state \<times> effect list" where
  "onClick P outcome st = (if button_disabled st then (st, []) else sendMessage P outcome st)"

definition onKeyPress ::
  "jsstring \<Rightarrow> platform \<Rightarrow> read_result list option response promise \<Rightarrow> chat_state \<Rightarrow>
   chat_state \<times> effect list" where
  "onKeyPress key P outcome st = (if key = js ''Enter'' then sendMessage P outcome st else (st, []))"

definition onChange :: "jsstring \<Rightarrow> chat_state \<Rightarrow> chat_state" where
  "onChange v st = st\<lparr>input := v\<rparr>"

section \<open>The chat screen without streaming (src/pages/Chat.tsx)\<close>

text \<open>
  The screen has the same state variables, but for \<open>localModels\<close>, which stays as it is.
\<close>

definition loadServerConfig_plain ::
  "(jsstring \<Rightarrow> jsstring option promise) \<Rightarrow> chat_state \<Rightarrow> chat_state \<times> effect list" where
  "loadServerConfig_plain get st =
     (case get url_key of
        Rejected e \<Rightarrow> (st, [])
      | Resolved url \<Rightarrow>
         (case get model_key of
            Rejected e \<Rightarrow> (st, [])
          | Resolved model \<Rightarrow>
              let st1 = (case url of None \<Rightarrow> st | Some u \<Rightarrow> if u \<noteq> [] then st\<lparr>serverUrl := u\<rparr> else st);
                  st2 = (case model of None \<Rightarrow> st1 | Some m \<Rightarrow> if m \<noteq> [] then st1\<lparr>selectedModel := m\<rparr> else st1)
              in (case (url, model) of
                    (Some u, Some m) \<Rightarrow> if u = [] \<or> m = [] then (st2, config_required) else (st2, [])
                  | _ \<Rightarrow> (st2, config_required))))"

definition sendMessage_request_plain :: "chat_state \<Rightarrow> effect" where
  "sendMessage_request_plain st =
     HttpPost (serverUrl st @ js ''/api/chat'')
       \<lparr>body_model = selectedModel st,
        body_messages = [\<lparr>role = user, content = content (userMessage st)\<rparr>],
        body_stream = None\<rparr>"

definition connect_error :: jsstring where
  "connect_error = js (''Unable to connect to the Ollama server. Please check:''
     @ [CHR 0x0A] @ ''1. The server URL is correct''
     @ [CHR 0x0A] @ ''2. The server is running''
     @ [CHR 0x0A] @ ''3. CORS is enabled on the server'')"

definition sendMessage_catch_plain :: "thrown \<Rightarrow> chat_state \<Rightarrow> chat_state \<times> effect list" where
  "sendMessage_catch_plain e st =
     (let errorMessage = error_message e
      in (st\<lparr>error := Some (if String_includes errorMessage (js ''Failed to fetch'')
                             then connect_error else errorMessage),
             isLoading := False\<rparr>,
          [send_failed_toast]))"

text \<open>
  The checks on the parsed body, \<open>!data.message || typeof data.message.content !== 'string'\<close>:
  the text of the answer, or the error thrown.
\<close>

definition response_content :: "platform \<Rightarrow> json \<Rightarrow> thrown + jsstring" where
  "response_content P data =
     (if data = JNull then Inl (Error (null_property_message P (js ''message'')))
      else (case property data (js ''message'') of
              None \<Rightarrow> Inl (Error (js ''Invalid response format from server''))
            | Some message \<Rightarrow>
                if \<not> truthy P (Some message) then Inl (Error (js ''Invalid response format from server''))
                else (case property message (js ''content'') of
                        Some (JStr text) \<Rightarrow> Inr text
                      | _ \<Rightarrow> Inl (Error (js ''Invalid response format from server'')))))"

text \<open>The payload of the response is what \<open>response.text()\<close> gives.\<close>

definition sendMessage_response_plain ::
  "platform \<Rightarrow> jsstring promise response promise \<Rightarrow> chat_state \<Rightarrow> chat_state \<times> effect list" where
  "sendMessage_response_plain P outcome st =
     (case outcome of
        Rejected e \<Rightarrow> sendMessage_catch_plain e st
      | Resolved r \<Rightarrow>
          if \<not> ok r then sendMessage_catch_plain (http_error (status r)) st
          else (case payload r of
                  Rejected e \<Rightarrow> sendMessage_catch_plain e st
                | Resolved responseText \<Rightarrow>
                   (case JSON_parse responseText of
                      None \<Rightarrow>
                        sendMessage_catch_plain
                          (Error (js ''Failed to parse response: '' @ syntax_error_message P responseText)) st
                    | Some data \<Rightarrow>
                       (case response_content P data of
                          Inl e \<Rightarrow> sendMessage_catch_plain e st
                        | Inr text \<Rightarrow>
                            (st\<lparr>messages := messages st @ [\<lparr>role = assistant, content = text\<rparr>],
                                isLoading := False\<rparr>, [])))))"

definition sendMessage_plain ::
  "platform \<Rightarrow> jsstring promise response promise \<Rightarrow> chat_state \<Rightarrow> chat_state \<times> effect list" where
  "sendMessage_plain P outcome st =
     (if \<not> sendMessage_guard st then (st, [])
      else let (st', effs) = sendMessage_response_plain P outcome (sendMessage_start st)
           in (st', sendMessage_request_plain st # effs))"

section \<open>Notions used to state the properties\<close>

text \<open>
  Of the results of the lines of a stream, in order: the fragments that are folded in before
  the loop stops at a line with a truthy \<open>done\<close>, and whether there is such a line.
\<close>

fun folded_fragments :: "line_result list \<Rightarrow> jsstring list" where
  "folded_fragments [] = []"
| "folded_fragments (Threw # rs) = folded_fragments rs"
| "folded_fragments (Parsed fragment done # rs) =
     (case fragment of None \<Rightarrow> [] | Some f \<Rightarrow> [f]) @ (if done then [] else folded_fragments rs)"

fun reaches_done :: "line_result list \<Rightarrow> bool" where
  "reaches_done [] = False"
| "reaches_done (Threw # rs) = reaches_done rs"
| "reaches_done (Parsed fragment done # rs) = (done \<or> reaches_done rs)"

text \<open>
  The transcript while an answer is streamed: the messages \<open>base\<close> that were there before
  the request, the last of them not an assistant message, and after them nothing yet or the
  one assistant message that holds the text accumulated so far.
\<close>

definition open_on :: "Message list \<Rightarrow> jsstring \<Rightarrow> Message list \<Rightarrow> bool" where
  "open_on base text msgs \<longleftrightarrow>
     (base = [] \<or> role (last base) \<noteq> assistant)
     \<and> (msgs = base \<or> msgs = base @ [\<lparr>role = assistant, content = text\<rparr>])"

text \<open>
  A turn that failed: an error is shown, the toast was raised, the loading flag is cleared,
  and the transcript is the one before the turn with the user's message after it.
\<close>

definition failed_turn :: "chat_state \<Rightarrow> chat_state \<times> effect list \<Rightarrow> bool" where
  "failed_turn st result \<longleftrightarrow>
     error (fst result) \<noteq> None \<and> send_failed_toast \<in> set (snd result)
     \<and> messages (fst result) = messages st @ [userMessage st]
     \<and> \<not> isLoading (fst result)"

section \<open>Example inputs\<close>

text \<open>The UTF-8 bytes of an ASCII text, and of a line of such text with its newline.\<close>

definition bytes :: "string \<Rightarrow> 8 word list" where
  "bytes s = map of_char s"

definition text_line :: "string \<Rightarrow> 8 word list" where
  "text_line s = bytes s @ [0x0A]"

text \<open>
  A platform for the examples: error texts in the wording of V8, and numbers treated as
  is right for plain decimal integers and for strings of decimal digits. No example has a
  number in it.
\<close>

definition example_platform :: platform where
  "example_platform =
     \<lparr>number_is_zero = (\<lambda>n. n = js ''0'' \<or> n = js ''-0''),
      number_is_positive = (\<lambda>n. n \<noteq> js ''0'' \<and> take 1 n \<noteq> js ''-''),
      string_is_positive = (\<lambda>s. s \<noteq> [] \<and> list_all is_digit s \<and> \<not> list_all (\<lambda>c. c = 0x30) s),
      number_to_string = (\<lambda>n. n),
      syntax_error_message = (\<lambda>t. js ''Unexpected end of JSON input''),
      null_property_message = (\<lambda>k. js ''Cannot read properties of null (reading '' @ [0x27] @ k @ [0x27] @ js '')'')\<rparr>"

text \<open>
  The two chunks of a line whose text fragment is the character U+00E9, bytes C3 A9, split
  between its two bytes.
\<close>

definition split_first :: "8 word list" where
  \<open>split_first = bytes ''{"message":{"content":"'' @ [0xC3]\<close>

definition split_second :: "8 word list" where
  \<open>split_second = [0xA9] @ text_line ''"}}''\<close>

text \<open>The screen after a successful initialization, with a message typed in.\<close>

definition ready_state :: chat_state where
  "ready_state = initial_state\<lparr>serverUrl := js ''http://pc:11434'', selectedModel := js ''llama3'',
     input := js ''hi''\<rparr>"

text \<open>The same screen later in a conversation.\<close>

definition talk_state :: chat_state where
  "talk_state = ready_state\<lparr>messages := [\<lparr>role = user, content = js ''hi''\<rparr>,
       \<lparr>role = assistant, content = js ''hello''\<rparr>],
     input := js ''again''\<rparr>"

text \<open>A configuration store with both settings.\<close>

definition demo_store :: preferences where
  "demo_store = [url_key \<mapsto> js ''http://pc:11434'', model_key \<mapsto> js ''llama3'']"

text \<open>A configuration store with the server URL only.\<close>

definition url_only_store :: preferences where
  "url_only_store = [url_key \<mapsto> js ''http://pc:11434'']"

section \<open>Properties of the string operations\<close>

lemma String_includes_sublist: "String_includes s pat \<longleftrightarrow> sublist pat s"
  by (induction s) (auto simp: sublist_Cons_right)

lemma String_replace_absent: "\<not> String_includes s pat \<Longrightarrow> String_replace pat rep s = s"
  by (induction s) auto

lemma prefix_append_long: "prefix p (xs @ ys) \<Longrightarrow> length p \<le> length xs \<Longrightarrow> prefix p xs"
  by (metis prefix_append prefix_def append_eq_append_conv_if append_take_drop_id le_refl)

lemma String_replace_first:
  "pat \<noteq> [] \<Longrightarrow> \<not> String_includes (pre @ butlast pat) pat \<Longrightarrow>
   String_replace pat rep (pre @ pat @ post) = pre @ rep @ post"
proof (induction pre)
  case Nil
  then show ?case by (cases pat) auto
next
  case (Cons c pre)
  have "\<not> prefix pat ((c # pre) @ pat @ post)"
  proof
    assume p: "prefix pat ((c # pre) @ pat @ post)"
    have "pat = butlast pat @ [last pat]"
      using Cons.prems(1) by simp
    then have "(c # pre) @ pat @ post = ((c # pre) @ butlast pat) @ ([last pat] @ post)"
      by (metis append.assoc)
    with p have "prefix pat (((c # pre) @ butlast pat) @ ([last pat] @ post))" by (simp only:)
    then have "prefix pat ((c # pre) @ butlast pat)"
      by (rule prefix_append_long) simp
    with Cons.prems(2) show False by simp
  qed
  moreover have "\<not> String_includes (pre @ butlast pat) pat"
    using Cons.prems(2) by simp
  ultimately show ?case using Cons by simp
qed

section \<open>The fold over the streamed lines\<close>

lemma reconcile_first:
  "base = [] \<or> role (last base) \<noteq> assistant \<Longrightarrow>
   reconcile text base = base @ [\<lparr>role = assistant, content = text\<rparr>]"
  by (auto simp: reconcile_def)

lemma reconcile_grow:
  "reconcile (text @ f) (base @ [\<lparr>role = assistant, content = text\<rparr>])
     = base @ [\<lparr>role = assistant, content = text @ f\<rparr>]"
  by (auto simp: reconcile_def prefix_def)

lemma reconcile_open_on:
  "open_on base text msgs \<Longrightarrow>
   reconcile (text @ f) msgs = base @ [\<lparr>role = assistant, content = text @ f\<rparr>]"
  unfolding open_on_def using reconcile_first reconcile_grow by metis

lemma process_lines_fold:
  assumes "open_on base acc msgs"
  shows "process_lines P lines (acc, msgs) =
     ((acc @ concat (folded_fragments (map (handle_line P) lines)),
       if folded_fragments (map (handle_line P) lines) = [] then msgs
       else base @ [\<lparr>role = assistant,
                      content = acc @ concat (folded_fragments (map (handle_line P) lines))\<rparr>]),
      reaches_done (map (handle_line P) lines))"
  using assms
proof (induction lines arbitrary: acc msgs)
  case Nil
  show ?case by simp
next
  case (Cons line lines)
  show ?case
  proof (cases "handle_line P line")
    case Threw
    then show ?thesis using Cons.IH[OF Cons.prems] by simp
  next
    case (Parsed fragment d)
    show ?thesis
    proof (cases fragment)
      case None
      then show ?thesis using Parsed Cons.IH[OF Cons.prems] by simp
    next
      case (Some f)
      have r: "reconcile (acc @ f) msgs = base @ [\<lparr>role = assistant, content = acc @ f\<rparr>]"
        using Cons.prems by (rule reconcile_open_on)
      have o: "open_on base (acc @ f) (base @ [\<lparr>role = assistant, content = acc @ f\<rparr>])"
        using Cons.prems by (simp add: open_on_def)
      show ?thesis using Parsed Some r Cons.IH[OF o] by simp
    qed
  qed
qed

lemma process_lines_append:
  "process_lines P (xs @ ys) s =
     (case process_lines P xs s of
        (folded, True) \<Rightarrow> (folded, True)
      | (folded, False) \<Rightarrow> process_lines P ys folded)"
proof (induction xs arbitrary: s)
  case Nil
  show ?case by (cases s) simp
next
  case (Cons x xs)
  obtain acc msgs where s: "s = (acc, msgs)" by (cases s)
  show ?case unfolding s using Cons.IH
    by (simp split: line_result.split option.split prod.split bool.split add: Let_def)
qed

lemma read_loop_chunks:
  "read_loop P (map Chunk cs @ rest) s =
     (case process_lines P (concat (map chunk_lines cs)) s of
        (folded, True) \<Rightarrow> (snd folded, ResponseComplete)
      | (folded, False) \<Rightarrow> read_loop P rest folded)"
proof (induction cs arbitrary: s)
  case Nil
  show ?case by (cases s) simp
next
  case (Cons c cs)
  obtain acc msgs where s: "s = (acc, msgs)" by (cases s)
  show ?case unfolding s using Cons.IH
    by (simp add: process_lines_append split: prod.split bool.split)
qed

section \<open>Properties of the streaming send\<close>

lemma open_on_start: "open_on (messages st @ [userMessage st]) [] (messages st @ [userMessage st])"
  by (simp add: open_on_def userMessage_def)

lemma read_loop_fold:
  assumes "open_on base acc msgs"
  shows "read_loop P (map Chunk cs @ rest) (acc, msgs) =
     (let rs = map (handle_line P) (concat (map chunk_lines cs));
          acc' = acc @ concat (folded_fragments rs);
          msgs' = (if folded_fragments rs = [] then msgs
                   else base @ [\<lparr>role = assistant, content = acc'\<rparr>])
      in if reaches_done rs then (msgs', ResponseComplete)
         else read_loop P rest (acc', msgs'))"
  unfolding read_loop_chunks process_lines_fold[OF assms]
  by (simp add: Let_def)

lemma sendMessage_answered:
  assumes "sendMessage_guard st"
  shows "sendMessage P (Resolved (Response True code (Some reads))) st =
     (case read_loop P reads ([], messages st @ [userMessage st]) of
        (msgs, ReadFailed e) \<Rightarrow>
          ((sendMessage_start st)\<lparr>messages := msgs, isLoading := False, error := Some (error_message e)\<rparr>,
           [sendMessage_request st, send_failed_toast])
      | (msgs, other) \<Rightarrow>
          ((sendMessage_start st)\<lparr>messages := msgs, isLoading := False\<rparr>, [sendMessage_request st]))"
  using assms
  by (simp add: sendMessage_def sendMessage_response_def sendMessage_start_def sendMessage_catch_def
      split: prod.split loop_exit.split)

lemma fragment_line:
  assumes "JSON_parse l = Some d" "property d (js ''message'') = Some m"
    and "property m (js ''content'') = Some (JStr f)" "f \<noteq> []"
  shows "handle_line P l = Parsed (Some f) (truthy P (property d (js ''done'')))"
proof -
  have d: "d \<noteq> JNull" using assms(2) by (cases d) auto
  have m: "truthy P (Some m)" using assms(3) by (cases m) auto
  have c: "message_content P d = Some (JStr f)"
    using assms m by (simp add: message_content_def)
  show ?thesis using assms(1) d c by (simp add: handle_line_def)
qed

lemma invalid_line: "JSON_parse l = None \<Longrightarrow> handle_line P l = Threw"
  by (simp add: handle_line_def)

lemmas stream_eval = js_def bytes_def text_line_def TextDecoder_decode_def utf8_lead_def utf8_initial_def
  strip_bom_def chunk_lines_def String_trim_def is_js_space_def JSON_parse_def is_json_space_def
  is_digit_def simple_escape_def handle_line_def message_content_def reconcile_def

lemmas send_eval = sendMessage_def sendMessage_guard_def sendMessage_start_def sendMessage_response_def
  sendMessage_request_def sendMessage_catch_def userMessage_def ready_state_def initial_state_def
  example_platform_def error_message_def http_error_def

lemma ready_guard: "sendMessage_guard ready_state"
  by (simp add: send_eval js_def String_trim_def is_js_space_def)

lemma ready_user: "userMessage ready_state = \<lparr>role = user, content = js ''hi''\<rparr>"
  by (simp add: send_eval js_def String_trim_def is_js_space_def)

text \<open>
  C1 (as amended). For every streamed response whose reads all succeed, the fragments folded
  in are those of the lines up to and including the first line with a truthy \<open>done\<close>, in
  the order of their delivery; lines that throw or carry no fragment add nothing, and lines
  after that line are not read. The turn ends with the user's message and, unless there is
  no such fragment, exactly one assistant message after it, whose content is the
  concatenation of these fragments, each as often as it was delivered: a fragment equal to
  the one before it is appended like any other.
\<close>

theorem every_fragment_appended:
  assumes "sendMessage_guard st"
  shows "sendMessage P (Resolved (Response True code (Some (map Chunk cs)))) st =
     ((sendMessage_start st)\<lparr>messages :=
          messages st @ [userMessage st]
          @ (if folded_fragments (map (handle_line P) (concat (map chunk_lines cs))) = [] then []
             else [\<lparr>role = assistant,
                     content = concat (folded_fragments (map (handle_line P) (concat (map chunk_lines cs))))\<rparr>]),
         isLoading := False\<rparr>,
      [sendMessage_request st])
   \<and> folded_fragments (map (\<lambda>f. Parsed (Some f) False) fs) = fs
   \<and> folded_fragments (map (\<lambda>f. Parsed (Some f) False) fs @ Parsed closing True # later)
       = fs @ (case closing of None \<Rightarrow> [] | Some f \<Rightarrow> [f])"
proof -
  have "read_loop P (map Chunk cs @ []) ([], messages st @ [userMessage st]) =
      (messages st @ [userMessage st]
         @ (if folded_fragments (map (handle_line P) (concat (map chunk_lines cs))) = [] then []
            else [\<lparr>role = assistant,
                    content = concat (folded_fragments (map (handle_line P) (concat (map chunk_lines cs))))\<rparr>]),
       if reaches_done (map (handle_line P) (concat (map chunk_lines cs)))
       then ResponseComplete else StreamFinished)"
    unfolding read_loop_fold[OF open_on_start] by (simp add: Let_def)
  then have a: "sendMessage P (Resolved (Response True code (Some (map Chunk cs)))) st =
     ((sendMessage_start st)\<lparr>messages :=
          messages st @ [userMessage st]
          @ (if folded_fragments (map (handle_line P) (concat (map chunk_lines cs))) = [] then []
             else [\<lparr>role = assistant,
                     content = concat (folded_fragments (map (handle_line P) (concat (map chunk_lines cs))))\<rparr>]),
         isLoading := False\<rparr>,
      [sendMessage_request st])"
    unfolding sendMessage_answered[OF assms(1)] by simp
  have b: "folded_fragments (map (\<lambda>f. Parsed (Some f) False) fs @ rs) = fs @ folded_fragments rs" for rs
    by (induction fs) auto
  have c: "folded_fragments (Parsed closing True # later) = (case closing of None \<Rightarrow> [] | Some f \<Rightarrow> [f])"
    by simp
  show ?thesis using a b[of "[]"] b[of "Parsed closing True # later"] c by simp
qed

theorem every_fragment_appended_witness:
  \<open>messages (fst (sendMessage example_platform
      (Resolved (Response True 200
         (Some [Chunk (text_line ''{"message":{"content":"a"}}''),
                Chunk (text_line ''{"message":{"content":"a"}}'' @ text_line ''{"done":true}''
                         @ text_line ''{"message":{"content":"b"}}'')])))
      ready_state))
   = [\<lparr>role = user, content = js ''hi''\<rparr>, \<lparr>role = assistant, content = js ''aa''\<rparr>]
   \<and> messages (fst (sendMessage example_platform
      (Resolved (Response True 200
         (Some [Chunk (text_line ''{"message":{"content":"a"},"done":true}''
                         @ text_line ''{"message":{"content":"b"}}'')])))
      ready_state))
   = [\<lparr>role = user, content = js ''hi''\<rparr>, \<lparr>role = assistant, content = js ''a''\<rparr>]\<close>
proof -
  have h: \<open>map (handle_line example_platform)
      (concat (map chunk_lines [text_line ''{"message":{"content":"a"}}'',
         text_line ''{"message":{"content":"a"}}'' @ text_line ''{"done":true}''
           @ text_line ''{"message":{"content":"b"}}'']))
    = map (\<lambda>f. Parsed (Some f) False) [js ''a'', js ''a''] @ Parsed None True # [Parsed (Some (js ''b'')) False]\<close>
    by (simp add: stream_eval)
  have k: \<open>map (handle_line example_platform)
      (concat (map chunk_lines [text_line ''{"message":{"content":"a"},"done":true}''
           @ text_line ''{"message":{"content":"b"}}'']))
    = map (\<lambda>f. Parsed (Some f) False) [] @ Parsed (Some (js ''a'')) True # [Parsed (Some (js ''b'')) False]\<close>
    by (simp add: stream_eval)
  note t1 = every_fragment_appended[OF ready_guard, where P = example_platform and code = 200
      and cs = \<open>[text_line ''{"message":{"content":"a"}}'',
         text_line ''{"message":{"content":"a"}}'' @ text_line ''{"done":true}''
           @ text_line ''{"message":{"content":"b"}}'']\<close>
      and fs = "[js ''a'', js ''a'']" and closing = None and later = "[Parsed (Some (js ''b'')) False]"]
  note t2 = every_fragment_appended[OF ready_guard, where P = example_platform and code = 200
      and cs = \<open>[text_line ''{"message":{"content":"a"},"done":true}''
           @ text_line ''{"message":{"content":"b"}}'']\<close>
      and fs = "[]" and closing = "Some (js ''a'')" and later = "[Parsed (Some (js ''b'')) False]"]
  have u: "messages ready_state = []" by (simp add: ready_state_def initial_state_def)
  have j: "js ''a'' @ js ''a'' = js ''aa''" by (simp add: js_def)
  from t1 have r1: \<open>messages (fst (sendMessage example_platform
      (Resolved (Response True 200
         (Some [Chunk (text_line ''{"message":{"content":"a"}}''),
                Chunk (text_line ''{"message":{"content":"a"}}'' @ text_line ''{"done":true}''
                         @ text_line ''{"message":{"content":"b"}}'')])))
      ready_state))
   = [\<lparr>role = user, content = js ''hi''\<rparr>, \<lparr>role = assistant, content = js ''aa''\<rparr>]\<close>
    unfolding h by (simp add: ready_user u j del: map_append)
  from t2 have r2: \<open>messages (fst (sendMessage example_platform
      (Resolved (Response True 200
         (Some [Chunk (text_line ''{"message":{"content":"a"},"done":true}''
                         @ text_line ''{"message":{"content":"b"}}'')])))
      ready_state))
   = [\<lparr>role = user, content = js ''hi''\<rparr>, \<lparr>role = assistant, content = js ''a''\<rparr>]\<close>
    unfolding k by (simp add: ready_user u)
  show ?thesis using r1 r2 by simp
qed

text \<open>
  The same fragment \<open>a\<close> delivered twice in sequence ends as \<open>aa\<close> in the assistant
  message, not as \<open>a\<close>.
\<close>

theorem repeated_fragment_counterexample:
  \<open>messages (fst (sendMessage example_platform
      (Resolved (Response True 200
         (Some [Chunk (text_line ''{"message":{"content":"a"}}'' @ text_line ''{"message":{"content":"a"}}'')])))
      ready_state))
   = [\<lparr>role = user, content = js ''hi''\<rparr>, \<lparr>role = assistant, content = js ''aa''\<rparr>]
   \<and> js ''aa'' \<noteq> js ''a''\<close>
  by (simp add: stream_eval send_eval)

text \<open>
  C3. When the lines of the stream are \<open>{message:{content:"a"}}\<close>,
  \<open>{message:{content:"b"}}\<close> and \<open>{done:true}\<close>, each whole in one chunk, followed by
  whatever lines and reads, the turn ends with exactly one assistant message, \<open>ab\<close>, after
  the user's, the loading flag cleared and no error: nothing that follows the line with
  \<open>done\<close> has any effect.
\<close>

theorem done_ends_the_turn:
  assumes "sendMessage_guard st"
    and "JSON_parse l1 = Some (JObj [(js ''message'', JObj [(js ''content'', JStr (js ''a''))])])"
    and "JSON_parse l2 = Some (JObj [(js ''message'', JObj [(js ''content'', JStr (js ''b''))])])"
    and "JSON_parse l3 = Some (JObj [(js ''done'', JBool True)])"
    and "concat (map chunk_lines cs) = l1 # l2 # l3 # later"
  shows "sendMessage P (Resolved (Response True code (Some (map Chunk cs @ rest)))) st =
     ((sendMessage_start st)\<lparr>messages := messages st @ [userMessage st, \<lparr>role = assistant, content = js ''ab''\<rparr>],
         isLoading := False\<rparr>,
      [sendMessage_request st])"
proof -
  have h1: "handle_line P l1 = Parsed (Some (js ''a'')) False"
    using fragment_line[OF assms(2), of "JObj [(js ''content'', JStr (js ''a''))]" "js ''a''" P]
    by (simp add: js_def)
  have h2: "handle_line P l2 = Parsed (Some (js ''b'')) False"
    using fragment_line[OF assms(3), of "JObj [(js ''content'', JStr (js ''b''))]" "js ''b''" P]
    by (simp add: js_def)
  have h3: "handle_line P l3 = Parsed None True"
    using assms(4) by (simp add: handle_line_def message_content_def js_def)
  have ab: "js ''a'' @ js ''b'' = js ''ab''" by (simp add: js_def)
  have "read_loop P (map Chunk cs @ rest) ([], messages st @ [userMessage st]) =
      (messages st @ [userMessage st, \<lparr>role = assistant, content = js ''ab''\<rparr>], ResponseComplete)"
    unfolding read_loop_fold[OF open_on_start] assms(5)
    by (simp add: Let_def h1 h2 h3 ab)
  then show ?thesis
    unfolding sendMessage_answered[OF assms(1)] by simp
qed

theorem done_ends_the_turn_witness:
  \<open>sendMessage example_platform
      (Resolved (Response True 200
         (Some [Chunk (text_line ''{"message":{"content":"a"}}''),
                Chunk (text_line ''{"message":{"content":"b"}}'' @ text_line ''{"done":true}''
                         @ text_line ''{"message":{"content":"c"}}''),
                Chunk (text_line ''{"message":{"content":"d"}}''),
                ReadError NonError])))
      ready_state
   = (ready_state\<lparr>messages := [\<lparr>role = user, content = js ''hi''\<rparr>, \<lparr>role = assistant, content = js ''ab''\<rparr>],
        input := [], isLoading := False, error := None\<rparr>,
      [sendMessage_request ready_state])\<close>
proof -
  have p1: \<open>JSON_parse (js ''{"message":{"content":"a"}}'') = Some (JObj [(js ''message'', JObj [(js ''content'', JStr (js ''a''))])])\<close>
    by (simp add: stream_eval)
  have p2: \<open>JSON_parse (js ''{"message":{"content":"b"}}'') = Some (JObj [(js ''message'', JObj [(js ''content'', JStr (js ''b''))])])\<close>
    by (simp add: stream_eval)
  have p3: \<open>JSON_parse (js ''{"done":true}'') = Some (JObj [(js ''done'', JBool True)])\<close>
    by (simp add: stream_eval)
  have c: \<open>concat (map chunk_lines [text_line ''{"message":{"content":"a"}}'',
        text_line ''{"message":{"content":"b"}}'' @ text_line ''{"done":true}'' @ text_line ''{"message":{"content":"c"}}''])
     = js ''{"message":{"content":"a"}}'' # js ''{"message":{"content":"b"}}'' # js ''{"done":true}''
       # [js ''{"message":{"content":"c"}}'']\<close>
    by (simp add: stream_eval)
  show ?thesis
    using done_ends_the_turn[OF ready_guard p1 p2 p3 c, of example_platform 200
        "[Chunk (text_line ''{\"message\":{\"content\":\"d\"}}''), ReadError NonError]"]
    by (simp add: ready_user) (simp add: send_eval js_def)
qed

text \<open>
  C7. When the lines of the stream are a line with a non-empty text fragment, a line that
  is not valid JSON and another line with a non-empty text fragment, the turn ends
  without an error and with one assistant message, the two fragments concatenated.
\<close>

theorem invalid_line_skipped:
  assumes "sendMessage_guard st"
    and "JSON_parse l1 = Some d1" "property d1 (js ''message'') = Some m1"
        "property m1 (js ''content'') = Some (JStr f1)" "f1 \<noteq> []"
        "\<not> truthy P (property d1 (js ''done''))"
    and "JSON_parse l2 = None"
    and "JSON_parse l3 = Some d3" "property d3 (js ''message'') = Some m3"
        "property m3 (js ''content'') = Some (JStr f3)" "f3 \<noteq> []"
    and "concat (map chunk_lines cs) = [l1, l2, l3]"
  shows "sendMessage P (Resolved (Response True code (Some (map Chunk cs)))) st =
     ((sendMessage_start st)\<lparr>messages := messages st @ [userMessage st, \<lparr>role = assistant, content = f1 @ f3\<rparr>],
         isLoading := False\<rparr>,
      [sendMessage_request st])"
proof -
  have h1: "handle_line P l1 = Parsed (Some f1) False"
    using fragment_line[OF assms(2-5), of P] assms(6) by simp
  have h2: "handle_line P l2 = Threw"
    using assms(7) by (rule invalid_line)
  have h3: "handle_line P l3 = Parsed (Some f3) (truthy P (property d3 (js ''done'')))"
    using fragment_line[OF assms(8-11), of P] by simp
  have "fst (read_loop P (map Chunk cs @ []) ([], messages st @ [userMessage st])) =
      messages st @ [userMessage st, \<lparr>role = assistant, content = f1 @ f3\<rparr>]
    \<and> snd (read_loop P (map Chunk cs @ []) ([], messages st @ [userMessage st])) \<in> {StreamFinished, ResponseComplete}"
    unfolding read_loop_fold[OF open_on_start] assms(12)
    by (simp add: Let_def h1 h2 h3)
  then show ?thesis
    unfolding sendMessage_answered[OF assms(1)]
    by (auto split: prod.split loop_exit.split)
qed

theorem invalid_line_skipped_witness:
  \<open>sendMessage example_platform
      (Resolved (Response True 200
         (Some [Chunk (text_line ''{"message":{"content":"Hel"}}'' @ text_line ''{"message":''),
                Chunk (text_line ''{"message":{"content":"lo"},"done":false}'')])))
      ready_state
   = (ready_state\<lparr>messages := [\<lparr>role = user, content = js ''hi''\<rparr>, \<lparr>role = assistant, content = js ''Hello''\<rparr>],
        input := [], isLoading := False, error := None\<rparr>,
      [sendMessage_request ready_state])\<close>
proof -
  have p1: \<open>JSON_parse (js ''{"message":{"content":"Hel"}}'') = Some (JObj [(js ''message'', JObj [(js ''content'', JStr (js ''Hel''))])])\<close>
    by (simp add: stream_eval)
  have m1: "property (JObj [(js ''message'', JObj [(js ''content'', JStr (js ''Hel''))])]) (js ''message'')
      = Some (JObj [(js ''content'', JStr (js ''Hel''))])"
    by (simp add: js_def)
  have c1: "property (JObj [(js ''content'', JStr (js ''Hel''))]) (js ''content'') = Some (JStr (js ''Hel''))"
    by (simp add: js_def)
  have d1: "\<not> truthy example_platform (property (JObj [(js ''message'', JObj [(js ''content'', JStr (js ''Hel''))])]) (js ''done''))"
    by (simp add: js_def)
  have p2: \<open>JSON_parse (js ''{"message":'') = None\<close>
    by (simp add: stream_eval)
  have p3: \<open>JSON_parse (js ''{"message":{"content":"lo"},"done":false}'')
      = Some (JObj [(js ''message'', JObj [(js ''content'', JStr (js ''lo''))]), (js ''done'', JBool False)])\<close>
    by (simp add: stream_eval)
  have m3: "property (JObj [(js ''message'', JObj [(js ''content'', JStr (js ''lo''))]), (js ''done'', JBool False)]) (js ''message'')
      = Some (JObj [(js ''content'', JStr (js ''lo''))])"
    by (simp add: js_def)
  have c3: "property (JObj [(js ''content'', JStr (js ''lo''))]) (js ''content'') = Some (JStr (js ''lo''))"
    by (simp add: js_def)
  have n: "js ''Hel'' \<noteq> []" "js ''lo'' \<noteq> []" by (simp_all add: js_def)
  have c: \<open>concat (map chunk_lines [text_line ''{"message":{"content":"Hel"}}'' @ text_line ''{"message":'',
        text_line ''{"message":{"content":"lo"},"done":false}''])
     = [js ''{"message":{"content":"Hel"}}'', js ''{"message":'', js ''{"message":{"content":"lo"},"done":false}'']\<close>
    by (simp add: stream_eval)
  show ?thesis
    using invalid_line_skipped[OF ready_guard p1 m1 c1 n(1) d1 p2 p3 m3 c3 n(2) c, of 200]
    by (simp add: ready_user) (simp add: send_eval js_def)
qed

text \<open>
  C2 (as amended). Every chunk is decoded and split into lines by itself: reading the
  chunks one after the other is one pass over the lines of the separately decoded chunks,
  and it ends without an error. When no line of two consecutive chunks is valid JSON, as
  with the two pieces of a line or of a character that a chunk boundary has split, the loop
  goes on as if the two chunks had not arrived.
\<close>

theorem chunks_handled_separately:
  "read_loop P (map Chunk cs) s =
     (case process_lines P (concat (map chunk_lines cs)) s of
        (folded, done) \<Rightarrow> (snd folded, if done then ResponseComplete else StreamFinished))
   \<and> ((\<forall>l \<in> set (chunk_lines c1 @ chunk_lines c2). JSON_parse l = None) \<longrightarrow>
        read_loop P (Chunk c1 # Chunk c2 # rest) s = read_loop P rest s)"
proof
  show "read_loop P (map Chunk cs) s =
     (case process_lines P (concat (map chunk_lines cs)) s of
        (folded, done) \<Rightarrow> (snd folded, if done then ResponseComplete else StreamFinished))"
    using read_loop_chunks[of P cs "[]" s]
    by (cases s) (auto split: prod.split bool.split)
next
  have skip: "process_lines P ls s = (s, False)" if "\<forall>l \<in> set ls. JSON_parse l = None" for ls
    using that
  proof (induction ls)
    case Nil
    show ?case by (cases s) simp
  next
    case (Cons l ls)
    then show ?case by (cases s) (simp add: invalid_line)
  qed
  show "(\<forall>l \<in> set (chunk_lines c1 @ chunk_lines c2). JSON_parse l = None) \<longrightarrow>
        read_loop P (Chunk c1 # Chunk c2 # rest) s = read_loop P rest s"
  proof
    assume a: "\<forall>l \<in> set (chunk_lines c1 @ chunk_lines c2). JSON_parse l = None"
    have "read_loop P (map Chunk [c1, c2] @ rest) s = read_loop P rest s"
      unfolding read_loop_chunks using skip[OF a] by simp
    then show "read_loop P (Chunk c1 # Chunk c2 # rest) s = read_loop P rest s" by simp
  qed
qed

theorem chunks_handled_separately_witness:
  \<open>read_loop example_platform [Chunk split_first, Chunk split_second] ([], [\<lparr>role = user, content = js ''hi''\<rparr>])
   = ([\<lparr>role = user, content = js ''hi''\<rparr>], StreamFinished)\<close>
proof -
  have a: "\<forall>l \<in> set (chunk_lines split_first @ chunk_lines split_second). JSON_parse l = None"
    by (simp add: stream_eval split_first_def split_second_def)
  show ?thesis
    using chunks_handled_separately[of example_platform "[]" "([], [\<lparr>role = user, content = js ''hi''\<rparr>])"
        split_first split_second "[]"] a
    by simp
qed

text \<open>
  The line \<open>{"message":{"content":"\<dots>"}}\<close> whose content is the two-byte character U+00E9,
  in one chunk and split between the two bytes of the character: whole, it gives the
  assistant message; split, each piece decodes to text with U+FFFD in it, neither piece
  parses, and no assistant message appears.
\<close>

theorem split_chunk_counterexample:
  \<open>messages (fst (sendMessage example_platform
      (Resolved (Response True 200 (Some [Chunk (split_first @ split_second)]))) ready_state))
     = [\<lparr>role = user, content = js ''hi''\<rparr>, \<lparr>role = assistant, content = [0xE9]\<rparr>]
   \<and> messages (fst (sendMessage example_platform
      (Resolved (Response True 200 (Some [Chunk split_first, Chunk split_second]))) ready_state))
     = [\<lparr>role = user, content = js ''hi''\<rparr>]
   \<and> chunk_lines split_first = [js ''{"message":{"content":"'' @ [0xFFFD]]
   \<and> chunk_lines split_second = [[0xFFFD] @ js ''"}}'']\<close>
  by (simp add: stream_eval send_eval split_first_def split_second_def)

section \<open>Requests and failed turns\<close>

lemmas plain_eval = sendMessage_plain_def sendMessage_response_plain_def sendMessage_catch_plain_def
  sendMessage_request_plain_def response_content_def connect_error_def

lemma talk_guard: "sendMessage_guard talk_state"
  by (simp add: talk_state_def send_eval js_def String_trim_def is_js_space_def)

text \<open>
  C4 (as amended). Every send that passes the guard issues exactly one POST, to
  \<open>serverUrl/api/chat\<close>. On the streaming screen its body has the selected model, the
  whole transcript followed by the new user message, and \<open>stream: true\<close>. On the screen
  without streaming the body has the selected model and, as \<open>messages\<close>, the new user
  message alone; it has no \<open>stream\<close> key.
\<close>

theorem request_bodies:
  assumes "sendMessage_guard st"
  shows "(snd (sendMessage P outcome st) = [sendMessage_request st]
          \<or> snd (sendMessage P outcome st) = [sendMessage_request st, send_failed_toast])
     \<and> sendMessage_request st =
          HttpPost (serverUrl st @ js ''/api/chat'')
            \<lparr>body_model = selectedModel st,
             body_messages = messages st @ [\<lparr>role = user, content = String_trim (input st)\<rparr>],
             body_stream = Some True\<rparr>
     \<and> (snd (sendMessage_plain P outcome' st) = [sendMessage_request_plain st]
          \<or> snd (sendMessage_plain P outcome' st) = [sendMessage_request_plain st, send_failed_toast])
     \<and> sendMessage_request_plain st =
          HttpPost (serverUrl st @ js ''/api/chat'')
            \<lparr>body_model = selectedModel st,
             body_messages = [\<lparr>role = user, content = String_trim (input st)\<rparr>],
             body_stream = None\<rparr>"
proof -
  have a: "snd (sendMessage P outcome st) = [sendMessage_request st]
          \<or> snd (sendMessage P outcome st) = [sendMessage_request st, send_failed_toast]"
    using assms
    by (auto simp: sendMessage_def sendMessage_response_def sendMessage_catch_def
        split: promise.splits option.splits prod.splits loop_exit.splits)
  have b: "snd (sendMessage_plain P outcome' st) = [sendMessage_request_plain st]
          \<or> snd (sendMessage_plain P outcome' st) = [sendMessage_request_plain st, send_failed_toast]"
    using assms
    by (auto simp: sendMessage_plain_def sendMessage_response_plain_def sendMessage_catch_plain_def Let_def
        split: promise.splits option.splits prod.splits sum.splits)
  show ?thesis using a b
    by (simp add: sendMessage_request_def sendMessage_request_plain_def userMessage_def)
qed

theorem request_bodies_witness:
  \<open>sendMessage_request talk_state =
     HttpPost (js ''http://pc:11434/api/chat'')
        \<lparr>body_model = js ''llama3'',
         body_messages = [\<lparr>role = user, content = js ''hi''\<rparr>, \<lparr>role = assistant, content = js ''hello''\<rparr>,
                          \<lparr>role = user, content = js ''again''\<rparr>],
         body_stream = Some True\<rparr>
   \<and> sendMessage_request_plain talk_state =
     HttpPost (js ''http://pc:11434/api/chat'')
        \<lparr>body_model = js ''llama3'',
         body_messages = [\<lparr>role = user, content = js ''again''\<rparr>],
         body_stream = None\<rparr>
   \<and> take 1 (snd (sendMessage example_platform (Rejected NonError) talk_state)) = [sendMessage_request talk_state]
   \<and> take 1 (snd (sendMessage_plain example_platform (Rejected NonError) talk_state)) = [sendMessage_request_plain talk_state]\<close>
proof -
  note t = request_bodies[OF talk_guard, of example_platform "Rejected NonError" "Rejected NonError"]
  have v: "serverUrl talk_state @ js ''/api/chat'' = js ''http://pc:11434/api/chat''"
    "selectedModel talk_state = js ''llama3''"
    "messages talk_state = [\<lparr>role = user, content = js ''hi''\<rparr>, \<lparr>role = assistant, content = js ''hello''\<rparr>]"
    "String_trim (input talk_state) = js ''again''"
    by (simp_all add: talk_state_def ready_state_def initial_state_def js_def String_trim_def is_js_space_def)
  from t have a: "sendMessage_request talk_state =
          HttpPost (serverUrl talk_state @ js ''/api/chat'')
            \<lparr>body_model = selectedModel talk_state,
             body_messages = messages talk_state @ [\<lparr>role = user, content = String_trim (input talk_state)\<rparr>],
             body_stream = Some True\<rparr>"
    by blast
  from t have b: "sendMessage_request_plain talk_state =
          HttpPost (serverUrl talk_state @ js ''/api/chat'')
            \<lparr>body_model = selectedModel talk_state,
             body_messages = [\<lparr>role = user, content = String_trim (input talk_state)\<rparr>],
             body_stream = None\<rparr>"
    by blast
  from t have c: "take 1 (snd (sendMessage example_platform (Rejected NonError) talk_state)) = [sendMessage_request talk_state]"
    by auto
  from t have d: "take 1 (snd (sendMessage_plain example_platform (Rejected NonError) talk_state)) = [sendMessage_request_plain talk_state]"
    by auto
  show ?thesis using a b c d unfolding v by simp
qed

text \<open>
  A third message on the screen without streaming: the transcript holds the two earlier
  messages, the request body only the new one, and no \<open>stream\<close> key.
\<close>

theorem plain_request_counterexample:
  \<open>sendMessage_plain example_platform
       (Resolved (Response True 200 (Resolved (js ''{"message":{"content":"ok"}}'')))) talk_state
   = (talk_state\<lparr>messages := [\<lparr>role = user, content = js ''hi''\<rparr>, \<lparr>role = assistant, content = js ''hello''\<rparr>,
                                \<lparr>role = user, content = js ''again''\<rparr>, \<lparr>role = assistant, content = js ''ok''\<rparr>],
        input := [], isLoading := False, error := None\<rparr>,
      [HttpPost (js ''http://pc:11434/api/chat'')
        \<lparr>body_model = js ''llama3'',
         body_messages = [\<lparr>role = user, content = js ''again''\<rparr>],
         body_stream = None\<rparr>])\<close>
  by (simp add: talk_state_def send_eval plain_eval stream_eval)

text \<open>
  C6. A send is in flight (\<open>isLoading\<close> is set) and the user has typed again: the
  button is disabled and a click does nothing, but the Enter key runs \<open>sendMessage\<close>, whose
  guard does not look at \<open>isLoading\<close>: a second user message is appended and a second POST
  is issued while the first is unanswered.
\<close>

theorem enter_key_sends_while_loading:
  "isLoading (onChange (js ''again'') (sendMessage_start ready_state))
   \<and> onClick example_platform (Resolved (Response True 200 (Some [])))
         (onChange (js ''again'') (sendMessage_start ready_state))
       = (onChange (js ''again'') (sendMessage_start ready_state), [])
   \<and> messages (fst (onKeyPress (js ''Enter'') example_platform (Resolved (Response True 200 (Some [])))
         (onChange (js ''again'') (sendMessage_start ready_state))))
       = [\<lparr>role = user, content = js ''hi''\<rparr>, \<lparr>role = user, content = js ''again''\<rparr>]
   \<and> snd (onKeyPress (js ''Enter'') example_platform (Resolved (Response True 200 (Some [])))
         (onChange (js ''again'') (sendMessage_start ready_state)))
       = [HttpPost (js ''http://pc:11434/api/chat'')
            \<lparr>body_model = js ''llama3'',
             body_messages = [\<lparr>role = user, content = js ''hi''\<rparr>, \<lparr>role = user, content = js ''again''\<rparr>],
             body_stream = Some True\<rparr>]"
  by (simp add: onChange_def onClick_def onKeyPress_def button_disabled_def send_eval
      js_def String_trim_def is_js_space_def)

text \<open>
  C8 (as amended). A send that fails before any fragment was folded in leaves a failed
  turn: an error is shown, the toast is raised, no assistant message is appended and the
  user's message is the last entry. On the streaming screen that is a rejected fetch, a
  status that is no success, a missing body, or a first read that fails; on the screen
  without streaming a rejected fetch, a status that is no success, a body that cannot be
  read, that is no JSON, that has no \<open>message\<close>, or whose \<open>message.content\<close> is no string.
\<close>

theorem failed_request_keeps_user_message_last:
  assumes "sendMessage_guard st"
  shows "failed_turn st (sendMessage P (Rejected e) st)
     \<and> (\<not> ok r \<or> payload r = None \<longrightarrow> failed_turn st (sendMessage P (Resolved r) st))
     \<and> failed_turn st (sendMessage P (Resolved (Response True code (Some (ReadError e # rest)))) st)
     \<and> failed_turn st (sendMessage_plain P (Rejected e) st)
     \<and> (\<not> ok r' \<longrightarrow> failed_turn st (sendMessage_plain P (Resolved r') st))
     \<and> failed_turn st (sendMessage_plain P (Resolved (Response True code (Rejected e))) st)
     \<and> (JSON_parse t = None \<longrightarrow>
          failed_turn st (sendMessage_plain P (Resolved (Response True code (Resolved t))) st))
     \<and> (JSON_parse t = Some data \<and> property data (js ''message'') = None \<longrightarrow>
          failed_turn st (sendMessage_plain P (Resolved (Response True code (Resolved t))) st))
     \<and> (JSON_parse t = Some data \<and> property data (js ''message'') = Some m
          \<and> (\<forall>s. property m (js ''content'') \<noteq> Some (JStr s)) \<longrightarrow>
          failed_turn st (sendMessage_plain P (Resolved (Response True code (Resolved t))) st))"
proof -
  have c: "failed_turn st (case sendMessage_catch x (sendMessage_start st) of
      (st', effs) \<Rightarrow> (st', sendMessage_request st # effs))" for x
    by (simp add: failed_turn_def sendMessage_catch_def sendMessage_start_def)
  have p: "failed_turn st (case sendMessage_catch_plain x (sendMessage_start st) of
      (st', effs) \<Rightarrow> (st', sendMessage_request_plain st # effs))" for x
    by (simp add: failed_turn_def sendMessage_catch_plain_def sendMessage_start_def Let_def)
  have 1: "failed_turn st (sendMessage P (Rejected e) st)"
    using assms c[of e] by (simp add: sendMessage_def sendMessage_response_def)
  have 2: "\<not> ok r \<or> payload r = None \<longrightarrow> failed_turn st (sendMessage P (Resolved r) st)"
    using assms c[of "http_error (status r)"]
    by (auto simp: sendMessage_def sendMessage_response_def split: option.splits)
  have 3: "failed_turn st (sendMessage P (Resolved (Response True code (Some (ReadError e # rest)))) st)"
    using assms
    by (simp add: sendMessage_def sendMessage_response_def sendMessage_start_def sendMessage_catch_def
        failed_turn_def)
  have 4: "failed_turn st (sendMessage_plain P (Rejected e) st)"
    using assms p[of e] by (simp add: sendMessage_plain_def sendMessage_response_plain_def)
  have 5: "\<not> ok r' \<longrightarrow> failed_turn st (sendMessage_plain P (Resolved r') st)"
    using assms p[of "http_error (status r')"]
    by (simp add: sendMessage_plain_def sendMessage_response_plain_def)
  have 6: "failed_turn st (sendMessage_plain P (Resolved (Response True code (Rejected e))) st)"
    using assms p[of e] by (simp add: sendMessage_plain_def sendMessage_response_plain_def)
  have 7: "JSON_parse t = None \<longrightarrow>
          failed_turn st (sendMessage_plain P (Resolved (Response True code (Resolved t))) st)"
    using assms p[of "Error (js ''Failed to parse response: '' @ syntax_error_message P t)"]
    by (simp add: sendMessage_plain_def sendMessage_response_plain_def)
  have i: "\<exists>x. response_content P data = Inl x" if "property data (js ''message'') = None"
    using that by (simp add: response_content_def)
  have j: "\<exists>x. response_content P data = Inl x"
    if "property data (js ''message'') = Some m" "\<forall>s. property m (js ''content'') \<noteq> Some (JStr s)"
    using that by (auto simp: response_content_def split: option.splits json.splits)
  have 8: "JSON_parse t = Some data \<and> property data (js ''message'') = None \<longrightarrow>
          failed_turn st (sendMessage_plain P (Resolved (Response True code (Resolved t))) st)"
  proof
    assume a: "JSON_parse t = Some data \<and> property data (js ''message'') = None"
    then obtain x where "response_content P data = Inl x" using i by blast
    then show "failed_turn st (sendMessage_plain P (Resolved (Response True code (Resolved t))) st)"
      using assms a p[of x] by (simp add: sendMessage_plain_def sendMessage_response_plain_def)
  qed
  have 9: "JSON_parse t = Some data \<and> property data (js ''message'') = Some m
          \<and> (\<forall>s. property m (js ''content'') \<noteq> Some (JStr s)) \<longrightarrow>
          failed_turn st (sendMessage_plain P (Resolved (Response True code (Resolved t))) st)"
  proof
    assume a: "JSON_parse t = Some data \<and> property data (js ''message'') = Some m
          \<and> (\<forall>s. property m (js ''content'') \<noteq> Some (JStr s))"
    then obtain x where "response_content P data = Inl x" using j by blast
    then show "failed_turn st (sendMessage_plain P (Resolved (Response True code (Resolved t))) st)"
      using assms a p[of x] by (simp add: sendMessage_plain_def sendMessage_response_plain_def)
  qed
  show ?thesis using 1 2 3 4 5 6 7 8 9 by blast
qed

theorem failed_request_keeps_user_message_last_witness:
  \<open>failed_turn ready_state (sendMessage example_platform (Resolved (Response False 500 (Some []))) ready_state)
   \<and> failed_turn ready_state (sendMessage_plain example_platform (Resolved (Response False 404 (Resolved []))) ready_state)
   \<and> failed_turn ready_state (sendMessage_plain example_platform
         (Resolved (Response True 200 (Resolved (js ''{"message":'')))) ready_state)
   \<and> failed_turn ready_state (sendMessage_plain example_platform
         (Resolved (Response True 200 (Resolved (js ''{"error":"model not found"}'')))) ready_state)
   \<and> failed_turn ready_state (sendMessage_plain example_platform
         (Resolved (Response True 200 (Resolved (js ''{"message":{"content":null}}'')))) ready_state)
   \<and> messages ready_state @ [userMessage ready_state] = [\<lparr>role = user, content = js ''hi''\<rparr>]\<close>
proof -
  have p1: \<open>JSON_parse (js ''{"message":'') = None\<close>
    by (simp add: stream_eval)
  have p2: \<open>JSON_parse (js ''{"error":"model not found"}'') = Some (JObj [(js ''error'', JStr (js ''model not found''))])
      \<and> property (JObj [(js ''error'', JStr (js ''model not found''))]) (js ''message'') = None\<close>
    by (simp add: stream_eval)
  have p3: \<open>JSON_parse (js ''{"message":{"content":null}}'') = Some (JObj [(js ''message'', JObj [(js ''content'', JNull)])])
      \<and> property (JObj [(js ''message'', JObj [(js ''content'', JNull)])]) (js ''message'') = Some (JObj [(js ''content'', JNull)])
      \<and> (\<forall>s. property (JObj [(js ''content'', JNull)]) (js ''content'') \<noteq> Some (JStr s))\<close>
    by (simp add: stream_eval)
  have g: "sendMessage_guard ready_state"
    by (simp add: send_eval js_def String_trim_def is_js_space_def)
  have u: "messages ready_state @ [userMessage ready_state] = [\<lparr>role = user, content = js ''hi''\<rparr>]"
    by (simp add: send_eval js_def String_trim_def is_js_space_def)
  note a = failed_request_keeps_user_message_last[OF g, of example_platform NonError "Response False 500 (Some [])"
      200 "[]" "Response False 404 (Resolved [])" \<open>js ''{"message":''\<close>]
  note b = failed_request_keeps_user_message_last[OF g, of example_platform NonError "Response False 500 (Some [])"
      200 "[]" "Response False 404 (Resolved [])" \<open>js ''{"error":"model not found"}''\<close>
      "JObj [(js ''error'', JStr (js ''model not found''))]"]
  note c = failed_request_keeps_user_message_last[OF g, of example_platform NonError "Response False 500 (Some [])"
      200 "[]" "Response False 404 (Resolved [])" \<open>js ''{"message":{"content":null}}''\<close>
      "JObj [(js ''message'', JObj [(js ''content'', JNull)])]" "JObj [(js ''content'', JNull)]"]
  show ?thesis using a b c p1 p2 p3 u by simp
qed

text \<open>
  A stream that breaks after the fragment \<open>par\<close>: the error is shown, and the assistant
  message \<open>par\<close>, not the user's message, is the last entry.
\<close>

theorem broken_stream_counterexample:
  \<open>sendMessage example_platform
      (Resolved (Response True 200
         (Some [Chunk (text_line ''{"message":{"content":"par"}}''), ReadError (Error (js ''network error''))])))
      ready_state
   = (ready_state\<lparr>messages := [\<lparr>role = user, content = js ''hi''\<rparr>, \<lparr>role = assistant, content = js ''par''\<rparr>],
        input := [], isLoading := False, error := Some (js ''network error'')\<rparr>,
      [sendMessage_request ready_state, send_failed_toast])\<close>
  by (simp add: send_eval stream_eval)

section \<open>Initialization\<close>

lemma fetchLocalModels_shape:
  assumes "fetchLocalModels P url tags st = (st2, effs, ms)"
  shows "serverUrl st2 = serverUrl st \<and> selectedModel st2 = selectedModel st
       \<and> messages st2 = messages st \<and> input st2 = input st
       \<and> (effs = [HttpGet (url @ js ''/api/tags'')]
          \<or> effs = [HttpGet (url @ js ''/api/tags''), fetch_models_toast])"
  using assms
  by (auto simp: fetchLocalModels_def fetchLocalModels_failed_def Let_def
      split: promise.splits if_splits option.splits)




lemma apply_effects_no_set:
  "\<forall>e \<in> set effs. \<forall>k v. e \<noteq> PreferencesSet k v \<Longrightarrow> apply_effects effs store = store"
  unfolding apply_effects_def
proof (induction effs)
  case Nil
  show ?case by simp
next
  case (Cons e effs)
  then show ?case by (cases e) auto
qed

lemma loadServerConfig_fetched:
  assumes "store url_key = Some u" "u \<noteq> []" "store model_key = Some m" "m \<noteq> []"
    and "fetchLocalModels P (if protocol = js ''https:'' then String_replace (js ''http:'') (js ''https:'') u else u)
           tags
           (st\<lparr>serverUrl := (if protocol = js ''https:''
                               then String_replace (js ''http:'') (js ''https:'') u else u)\<rparr>)
         = (st2, effs2, ms)"
  shows "loadServerConfig P (Preferences_get store) protocol tags st =
      (case length_greater_than_zero P ms of
         None \<Rightarrow> (st2\<lparr>error := Some load_config_error\<rparr>, effs2)
       | Some True \<Rightarrow> (st2\<lparr>selectedModel := m, error := None\<rparr>, effs2)
       | Some False \<Rightarrow>
           if error st = None \<or> error st = Some []
           then (st2\<lparr>error := Some (js ''Could not retrieve model list from server.'')\<rparr>, effs2)
           else (st2, effs2))"
  using assms by (simp add: loadServerConfig_def Preferences_get_def Let_def)

lemma loadServerConfig_present:
  assumes "store url_key = Some u" "u \<noteq> []" "store model_key = Some m" "m \<noteq> []"
    and "loadServerConfig P (Preferences_get store) protocol tags st = (st', effs)"
  shows "serverUrl st' = (if protocol = js ''https:'' then String_replace (js ''http:'') (js ''https:'') u else u)
     \<and> (effs = [HttpGet (serverUrl st' @ js ''/api/tags'')]
          \<or> effs = [HttpGet (serverUrl st' @ js ''/api/tags''), fetch_models_toast])"
proof -
  define finalUrl where "finalUrl = (if protocol = js ''https:'' then String_replace (js ''http:'') (js ''https:'') u else u)"
  obtain st2 effs2 ms where f: "fetchLocalModels P finalUrl tags (st\<lparr>serverUrl := finalUrl\<rparr>) = (st2, effs2, ms)"
    by (cases "fetchLocalModels P finalUrl tags (st\<lparr>serverUrl := finalUrl\<rparr>)") auto
  from fetchLocalModels_shape[OF f] have s2: "serverUrl st2 = finalUrl"
    and e2: "effs2 = [HttpGet (finalUrl @ js ''/api/tags'')] \<or> effs2 = [HttpGet (finalUrl @ js ''/api/tags''), fetch_models_toast]"
    by simp_all
  note eq = loadServerConfig_fetched[OF assms(1-4) f[unfolded finalUrl_def]]
  have "serverUrl st' = finalUrl \<and> effs = effs2"
    using assms(5) s2 unfolding eq by (auto split: if_splits option.splits bool.splits)
  with e2 show ?thesis unfolding finalUrl_def by auto
qed

text \<open>
  C10. With both settings stored, \<open>loadServerConfig\<close> uses the stored URL verbatim unless
  the page's protocol is \<open>https:\<close>, in which case the first occurrence of \<open>http:\<close> in it
  is replaced by \<open>https:\<close> (and nothing changes when there is no occurrence). The resulting
  URL is the one kept in \<open>serverUrl\<close>, the one of the only request made, the GET of
  \<open>/api/tags\<close>, and the one a later chat POST goes to. No effect of the initialization
  writes to the configuration store.
\<close>

theorem https_scheme_rewrite:
  assumes "store url_key = Some u" "u \<noteq> []" "store model_key = Some m" "m \<noteq> []"
    and "loadServerConfig P (Preferences_get store) protocol tags st = (st', effs)"
  shows "serverUrl st' = (if protocol = js ''https:'' then String_replace (js ''http:'') (js ''https:'') u else u)
     \<and> (\<not> String_includes (pre @ js ''http'') (js ''http:'') \<longrightarrow>
          String_replace (js ''http:'') (js ''https:'') (pre @ js ''http:'' @ post) = pre @ js ''https:'' @ post)
     \<and> (\<not> String_includes u (js ''http:'') \<longrightarrow> String_replace (js ''http:'') (js ''https:'') u = u)
     \<and> (effs = [HttpGet (serverUrl st' @ js ''/api/tags'')]
          \<or> effs = [HttpGet (serverUrl st' @ js ''/api/tags''), fetch_models_toast])
     \<and> sendMessage_request (st'\<lparr>input := text\<rparr>) =
          HttpPost (serverUrl st' @ js ''/api/chat'')
            \<lparr>body_model = selectedModel st', body_messages = messages st' @ [\<lparr>role = user, content = String_trim text\<rparr>],
             body_stream = Some True\<rparr>
     \<and> apply_effects effs store = store"
proof -
  note p = loadServerConfig_present[OF assms]
  have b: "butlast (js ''http:'') = js ''http''" by (simp add: js_def)
  have r: "\<not> String_includes (pre @ js ''http'') (js ''http:'') \<longrightarrow>
          String_replace (js ''http:'') (js ''https:'') (pre @ js ''http:'' @ post) = pre @ js ''https:'' @ post"
    using String_replace_first[of "js ''http:''" pre "js ''https:''" post] b by (simp add: js_def)
  have a: "apply_effects effs store = store"
    using p by (auto simp: apply_effects_def fetch_models_toast_def)
  have n: "\<not> String_includes u (js ''http:'') \<longrightarrow> String_replace (js ''http:'') (js ''https:'') u = u"
    by (simp add: String_replace_absent)
  have q: "sendMessage_request (st'\<lparr>input := text\<rparr>) =
          HttpPost (serverUrl st' @ js ''/api/chat'')
            \<lparr>body_model = selectedModel st', body_messages = messages st' @ [\<lparr>role = user, content = String_trim text\<rparr>],
             body_stream = Some True\<rparr>"
    by (simp add: sendMessage_request_def userMessage_def)
  from p have p1: "serverUrl st' = (if protocol = js ''https:'' then String_replace (js ''http:'') (js ''https:'') u else u)"
    and p2: "effs = [HttpGet (serverUrl st' @ js ''/api/tags'')]
          \<or> effs = [HttpGet (serverUrl st' @ js ''/api/tags''), fetch_models_toast]"
    by blast+
  show ?thesis using p1 r n p2 q a by blast
qed

lemma demo_store_values:
  "demo_store url_key = Some (js ''http://pc:11434'')" "demo_store model_key = Some (js ''llama3'')"
  by (simp_all add: demo_store_def url_key_def model_key_def js_def)

theorem https_scheme_rewrite_witness:
  "serverUrl (fst (loadServerConfig example_platform (Preferences_get demo_store) (js ''https:'') (Rejected NonError) initial_state))
      = js ''https://pc:11434''
   \<and> serverUrl (fst (loadServerConfig example_platform (Preferences_get demo_store) (js ''http:'') (Rejected NonError) initial_state))
      = js ''http://pc:11434''
   \<and> String_replace (js ''http:'') (js ''https:'') (js ''https://pc'') = js ''https://pc''
   \<and> apply_effects (snd (loadServerConfig example_platform (Preferences_get demo_store) (js ''https:'') (Rejected NonError) initial_state))
        demo_store = demo_store"
proof -
  have ne: "js ''http://pc:11434'' \<noteq> []" "js ''llama3'' \<noteq> []" by (simp_all add: js_def)
  have i: "\<not> String_includes ([] @ js ''http'') (js ''http:'')" by (simp add: js_def)
  have j: "\<not> String_includes (js ''https://pc'') (js ''http:'')" by (simp add: js_def)
  have s: "demo_store url_key = Some (js ''https://pc'') \<or> True" by simp
  note a = https_scheme_rewrite[OF demo_store_values(1) ne(1) demo_store_values(2) ne(2) prod.collapse[symmetric],
      where P = example_platform and protocol = "js ''https:''" and tags = "Rejected NonError"
        and st = initial_state and pre = "[]" and post = "js ''//pc:11434''"]
  note b = https_scheme_rewrite[OF demo_store_values(1) ne(1) demo_store_values(2) ne(2) prod.collapse[symmetric],
      where P = example_platform and protocol = "js ''http:''" and tags = "Rejected NonError"
        and st = initial_state and pre = "[]" and post = "js ''//pc:11434''"]
  have c: "js ''http:'' \<noteq> js ''https:''" by (simp add: js_def)
  have d: "[] @ js ''http:'' @ js ''//pc:11434'' = js ''http://pc:11434''" "[] @ js ''https:'' @ js ''//pc:11434'' = js ''https://pc:11434''"
    by (simp_all add: js_def) 
  show ?thesis using a b i j c d String_replace_absent[OF j] by (simp del: String_replace.simps)
qed

text \<open>
  C9. When the server URL or the model name is missing from the store, or empty, the
  initialization of either screen navigates to \<open>/settings\<close>, raises the toast and does
  nothing else, no request in particular; whatever is typed afterwards, sending does nothing.
\<close>

theorem missing_setting_routes_to_settings:
  assumes "store url_key = None \<or> store url_key = Some [] \<or> store model_key = None \<or> store model_key = Some []"
  shows "loadServerConfig P (Preferences_get store) protocol tags initial_state =
       (initial_state,
        [Navigate (js ''/settings''),
         Toast (js ''Configuration Required'') (js ''Please set up your Ollama server and model first.'') True])
     \<and> sendMessage P outcome (initial_state\<lparr>input := typed\<rparr>) = (initial_state\<lparr>input := typed\<rparr>, [])
     \<and> snd (loadServerConfig_plain (Preferences_get store) initial_state) =
        [Navigate (js ''/settings''),
         Toast (js ''Configuration Required'') (js ''Please set up your Ollama server and model first.'') True]
     \<and> sendMessage_plain P outcome'
          ((fst (loadServerConfig_plain (Preferences_get store) initial_state))\<lparr>input := typed\<rparr>) =
        ((fst (loadServerConfig_plain (Preferences_get store) initial_state))\<lparr>input := typed\<rparr>, [])"
proof -
  have a: "loadServerConfig P (Preferences_get store) protocol tags initial_state = (initial_state, config_required)"
    using assms by (auto simp: loadServerConfig_def Preferences_get_def split: option.splits)
  have b: "sendMessage P outcome (initial_state\<lparr>input := typed\<rparr>) = (initial_state\<lparr>input := typed\<rparr>, [])"
    by (simp add: sendMessage_def sendMessage_guard_def initial_state_def)
  have c: "snd (loadServerConfig_plain (Preferences_get store) initial_state) = config_required"
    using assms by (auto simp: loadServerConfig_plain_def Preferences_get_def Let_def split: option.splits)
  have "serverUrl (fst (loadServerConfig_plain (Preferences_get store) initial_state)) = []
      \<or> selectedModel (fst (loadServerConfig_plain (Preferences_get store) initial_state)) = []"
    using assms
    by (auto simp: loadServerConfig_plain_def Preferences_get_def Let_def initial_state_def split: option.splits)
  then have d: "sendMessage_plain P outcome'
          ((fst (loadServerConfig_plain (Preferences_get store) initial_state))\<lparr>input := typed\<rparr>) =
        ((fst (loadServerConfig_plain (Preferences_get store) initial_state))\<lparr>input := typed\<rparr>, [])"
    by (auto simp: sendMessage_plain_def sendMessage_guard_def)
  show ?thesis using a b c d by (simp add: config_required_def)
qed

theorem missing_setting_routes_to_settings_witness:
  "loadServerConfig example_platform (Preferences_get url_only_store) (js ''http:'') (Rejected NonError) initial_state =
       (initial_state,
        [Navigate (js ''/settings''),
         Toast (js ''Configuration Required'') (js ''Please set up your Ollama server and model first.'') True])
   \<and> serverUrl (fst (loadServerConfig_plain (Preferences_get url_only_store) initial_state)) = js ''http://pc:11434''
   \<and> snd (loadServerConfig_plain (Preferences_get url_only_store) initial_state) =
        [Navigate (js ''/settings''),
         Toast (js ''Configuration Required'') (js ''Please set up your Ollama server and model first.'') True]
   \<and> sendMessage_plain example_platform (Rejected NonError)
          ((fst (loadServerConfig_plain (Preferences_get url_only_store) initial_state))\<lparr>input := js ''hi''\<rparr>) =
        ((fst (loadServerConfig_plain (Preferences_get url_only_store) initial_state))\<lparr>input := js ''hi''\<rparr>, [])"
proof -
  have m: "url_only_store model_key = None"
    by (simp add: url_only_store_def url_key_def model_key_def js_def)
  have u: "url_only_store url_key = Some (js ''http://pc:11434'')"
    by (simp add: url_only_store_def)
  have s: "serverUrl (fst (loadServerConfig_plain (Preferences_get url_only_store) initial_state)) = js ''http://pc:11434''"
    by (simp add: loadServerConfig_plain_def Preferences_get_def m u js_def)
  have h: "url_only_store url_key = None \<or> url_only_store url_key = Some [] \<or> url_only_store model_key = None
      \<or> url_only_store model_key = Some []"
    using m by simp
  show ?thesis
    using missing_setting_routes_to_settings[OF h,
        where P = example_platform and protocol = "js ''http:''" and tags = "Rejected NonError"
          and outcome = "Rejected NonError" and typed = "js ''hi''" and outcome' = "Rejected NonError"] s
    by simp
qed




end
